theory Spec2Isabelle
  imports Complex_Main
begin

section \<open>Data model\<close>

text \<open>
  A row of the \<open>users\<close> table, with the columns the bot reads: the Discord id, the
  linked wallet address (null until linked), the points balance and the team label.
\<close>

record user =
  discord_id :: string
  address :: "string option"
  points :: int
  team :: "string option"

text \<open>
  The User Store is an external collaborator. It is modelled as the list of its rows, in
  the store's own order, together with the calls the store answers with an error: every
  \<open>if (error)\<close> branch of the source is then a branch of the model.
\<close>

datatype store_call =
    Rpc_sum_points string
  | Select_team string
  | Select_rank
  | Select_page int int
  | Select_single string
  | Update_points string

record store =
  users :: "user list"
  rejects :: "store_call \<Rightarrow> bool"

text \<open>
  The Membership Gateway: \<open>roles_cache\<close> holds the ids found in \<open>guild.roles.cache\<close>,
  \<open>members\<close> gives the role ids of a member (\<open>None\<close> when \<open>guild.members.fetch\<close> rejects,
  for instance for a member who left), \<open>add_rejects\<close> tells for which member and role
  \<open>member.roles.add\<close> rejects, and \<open>batch_rejects\<close> for which id batch the batched fetch
  rejects.
\<close>

record guild =
  roles_cache :: "string set"
  members :: "string \<Rightarrow> string set option"
  add_rejects :: "string \<Rightarrow> string \<Rightarrow> bool"
  batch_rejects :: "string list \<Rightarrow> bool"

record counter =
  added :: nat
  existing :: nat

record RoleUpdateLog =
  whitelist :: counter
  moolalist :: counter
  freemint :: counter

record team_points =
  bullas :: int
  beras :: int

section \<open>Role constants\<close>

definition WHITELIST_ROLE_ID :: string where
  "WHITELIST_ROLE_ID = ''1263470313300295751''"

definition MOOLALIST_ROLE_ID :: string where
  "MOOLALIST_ROLE_ID = ''1263470568536014870''"

definition FREE_MINT_ROLE_ID :: string where
  "FREE_MINT_ROLE_ID = ''1328473525710884864''"

definition FREE_MINT_WINNER_ROLE_ID :: string where
  "FREE_MINT_WINNER_ROLE_ID = ''1263470790314164325''"

definition WL_WINNER_ROLE_ID :: string where
  "WL_WINNER_ROLE_ID = ''1264963781419597916''"

definition ML_WINNER_ROLE_ID :: string where
  "ML_WINNER_ROLE_ID = ''1267532607491407933''"

section \<open>Team points and the winning team\<close>

text \<open>
  Modelled from the spec: the stored procedure \<open>sum_points_for_team\<close> lives in the
  database, not in the repository; the spec describes it as the team-sum aggregate, the
  sum of points for a given team label. \<open>None\<close> is the null \<open>data\<close> of a failed call.
\<close>

definition sum_points_for_team :: "store \<Rightarrow> string \<Rightarrow> int option" where
  "sum_points_for_team st team_name =
     (if rejects st (Rpc_sum_points team_name) then None
      else Some (sum_list (map points (filter (\<lambda>u. team u = Some team_name) (users st)))))"

definition getTeamPoints :: "store \<Rightarrow> team_points" where
  "getTeamPoints st =
     \<lparr>bullas = (case sum_points_for_team st ''bullas'' of None \<Rightarrow> 0 | Some v \<Rightarrow> v),
      beras = (case sum_points_for_team st ''beras'' of None \<Rightarrow> 0 | Some v \<Rightarrow> v)\<rparr>"

definition winningTeam :: "team_points \<Rightarrow> string" where
  "winningTeam teamPoints =
     (if bullas teamPoints > beras teamPoints then ''bullas'' else ''beras'')"

definition losingTeam :: "team_points \<Rightarrow> string" where
  "losingTeam teamPoints =
     (if winningTeam teamPoints = ''bullas'' then ''beras'' else ''bullas'')"

text \<open>The two teams as the \<open>/snapshot\<close> handler of \<open>index.ts\<close> computes them.\<close>

definition snapshot_teams :: "store \<Rightarrow> string \<times> string" where
  "snapshot_teams st =
     (let teamPoints = getTeamPoints st
      in (winningTeam teamPoints, losingTeam teamPoints))"

definition targetTeam :: "string \<Rightarrow> team_points \<Rightarrow> string" where
  "targetTeam teamType teamPoints =
     (if teamType = ''winning'' then winningTeam teamPoints
      else if winningTeam teamPoints = ''bullas'' then ''beras''
      else ''bullas'')"

section \<open>updateRoles\<close>

definition select_team :: "store \<Rightarrow> string \<Rightarrow> user list option" where
  "select_team st t =
     (if rejects st (Select_team t) then None
      else Some (filter (\<lambda>u. team u = Some t) (users st)))"

definition empty_log :: RoleUpdateLog where
  "empty_log =
     \<lparr>whitelist = \<lparr>added = 0, existing = 0\<rparr>,
      moolalist = \<lparr>added = 0, existing = 0\<rparr>,
      freemint = \<lparr>added = 0, existing = 0\<rparr>\<rparr>"

text \<open>
  \<open>member.roles.add(role)\<close>: rejects, or the member holds the role afterwards. No other
  member and no other role is touched.
\<close>

definition roles_add :: "guild \<Rightarrow> string \<Rightarrow> string \<Rightarrow> guild option" where
  "roles_add g member_id role_id =
     (case members g member_id of
        None \<Rightarrow> None
      | Some held \<Rightarrow>
          if add_rejects g member_id role_id then None
          else Some (g\<lparr>members := (members g)(member_id \<mapsto> insert role_id held)\<rparr>))"

type_synonym run_state = "RoleUpdateLog \<times> guild"

text \<open>
  One of the three blocks in the body of the loop. The result is \<open>Inr\<close> when the block
  runs to its end and \<open>Inl\<close> when \<open>roles.add\<close> throws: the exception leaves the \<open>try\<close>
  before the counter is incremented.
\<close>

definition category_step ::
  "bool \<Rightarrow> string \<Rightarrow> string \<Rightarrow> int \<Rightarrow> (RoleUpdateLog \<Rightarrow> RoleUpdateLog) \<Rightarrow>
   (RoleUpdateLog \<Rightarrow> RoleUpdateLog) \<Rightarrow> user \<Rightarrow> string set \<Rightarrow> run_state \<Rightarrow>
   run_state + run_state" where
  "category_step isSimulation base_id winner_id threshold count_added count_existing player held s =
     (if points player \<ge> threshold then
        (if base_id \<notin> held \<and> winner_id \<notin> held then
           (if \<not> isSimulation then
              (case roles_add (snd s) (discord_id player) base_id of
                 None \<Rightarrow> Inl s
               | Some g' \<Rightarrow> Inr (count_added (fst s), g'))
            else Inr (count_added (fst s), snd s))
         else Inr (count_existing (fst s), snd s))
      else Inr s)"

text \<open>The six increments of the log.\<close>

definition whitelist_added :: "RoleUpdateLog \<Rightarrow> RoleUpdateLog" where
  "whitelist_added l = l\<lparr>whitelist := (whitelist l)\<lparr>added := added (whitelist l) + 1\<rparr>\<rparr>"

definition whitelist_existing :: "RoleUpdateLog \<Rightarrow> RoleUpdateLog" where
  "whitelist_existing l = l\<lparr>whitelist := (whitelist l)\<lparr>existing := existing (whitelist l) + 1\<rparr>\<rparr>"

definition moolalist_added :: "RoleUpdateLog \<Rightarrow> RoleUpdateLog" where
  "moolalist_added l = l\<lparr>moolalist := (moolalist l)\<lparr>added := added (moolalist l) + 1\<rparr>\<rparr>"

definition moolalist_existing :: "RoleUpdateLog \<Rightarrow> RoleUpdateLog" where
  "moolalist_existing l = l\<lparr>moolalist := (moolalist l)\<lparr>existing := existing (moolalist l) + 1\<rparr>\<rparr>"

definition freemint_added :: "RoleUpdateLog \<Rightarrow> RoleUpdateLog" where
  "freemint_added l = l\<lparr>freemint := (freemint l)\<lparr>added := added (freemint l) + 1\<rparr>\<rparr>"

definition freemint_existing :: "RoleUpdateLog \<Rightarrow> RoleUpdateLog" where
  "freemint_existing l = l\<lparr>freemint := (freemint l)\<lparr>existing := existing (freemint l) + 1\<rparr>\<rparr>"

definition whitelist_step :: "bool \<Rightarrow> int \<Rightarrow> user \<Rightarrow> string set \<Rightarrow> run_state \<Rightarrow> run_state + run_state" where
  "whitelist_step isSimulation wlThreshold =
     category_step isSimulation WHITELIST_ROLE_ID WL_WINNER_ROLE_ID wlThreshold
       whitelist_added whitelist_existing"

definition moolalist_step :: "bool \<Rightarrow> int \<Rightarrow> user \<Rightarrow> string set \<Rightarrow> run_state \<Rightarrow> run_state + run_state" where
  "moolalist_step isSimulation mlThreshold =
     category_step isSimulation MOOLALIST_ROLE_ID ML_WINNER_ROLE_ID mlThreshold
       moolalist_added moolalist_existing"

definition freemint_step :: "bool \<Rightarrow> int \<Rightarrow> user \<Rightarrow> string set \<Rightarrow> run_state \<Rightarrow> run_state + run_state" where
  "freemint_step isSimulation freemintThreshold =
     category_step isSimulation FREE_MINT_ROLE_ID FREE_MINT_WINNER_ROLE_ID freemintThreshold
       freemint_added freemint_existing"

text \<open>
  The \<open>try\<close> block for one player. The member is fetched once; \<open>held\<close> is its role set
  at that moment. The three blocks test six different role ids, so a role granted by an
  earlier block never changes the test of a later one. Whatever is thrown is caught and
  logged, and the loop goes on with the state reached so far.
\<close>

definition try_player :: "bool \<Rightarrow> int \<Rightarrow> int \<Rightarrow> int \<Rightarrow> user \<Rightarrow> run_state \<Rightarrow> run_state" where
  "try_player isSimulation wlThreshold mlThreshold freemintThreshold player s =
     (case members (snd s) (discord_id player) of
        None \<Rightarrow> s
      | Some held \<Rightarrow>
          (case whitelist_step isSimulation wlThreshold player held s of
             Inl s1 \<Rightarrow> s1
           | Inr s1 \<Rightarrow>
               (case moolalist_step isSimulation mlThreshold player held s1 of
                  Inl s2 \<Rightarrow> s2
                | Inr s2 \<Rightarrow>
                    (case freemint_step isSimulation freemintThreshold player held s2 of
                       Inl s3 \<Rightarrow> s3
                     | Inr s3 \<Rightarrow> s3))))"

definition player_step :: "bool \<Rightarrow> int \<Rightarrow> int \<Rightarrow> int \<Rightarrow> run_state \<Rightarrow> user \<Rightarrow> run_state" where
  "player_step isSimulation wlThreshold mlThreshold freemintThreshold s player =
     (if discord_id player \<noteq> [] then
        try_player isSimulation wlThreshold mlThreshold freemintThreshold player s
      else s)"

definition updateRoles ::
  "guild \<Rightarrow> store \<Rightarrow> string \<Rightarrow> int \<Rightarrow> int \<Rightarrow> int \<Rightarrow> bool \<Rightarrow> run_state" where
  "updateRoles g st teamType wlThreshold mlThreshold freemintThreshold isSimulation =
     (if WHITELIST_ROLE_ID \<notin> roles_cache g \<or> MOOLALIST_ROLE_ID \<notin> roles_cache g
         \<or> FREE_MINT_ROLE_ID \<notin> roles_cache g \<or> WL_WINNER_ROLE_ID \<notin> roles_cache g
         \<or> ML_WINNER_ROLE_ID \<notin> roles_cache g \<or> FREE_MINT_WINNER_ROLE_ID \<notin> roles_cache g
      then (empty_log, g)
      else
        (case select_team st (targetTeam teamType (getTeamPoints st)) of
           None \<Rightarrow> (empty_log, g)
         | Some players \<Rightarrow>
             foldl (player_step isSimulation wlThreshold mlThreshold freemintThreshold)
               (empty_log, g) players))"

text \<open>
  The classification that the loop body performs for one category, as a function of the
  member's role set alone: the counter to bump, and whether the base role is due.
\<close>

definition category_count ::
  "string \<Rightarrow> string \<Rightarrow> int \<Rightarrow> (RoleUpdateLog \<Rightarrow> RoleUpdateLog) \<Rightarrow>
   (RoleUpdateLog \<Rightarrow> RoleUpdateLog) \<Rightarrow> user \<Rightarrow> string set \<Rightarrow> RoleUpdateLog \<Rightarrow> RoleUpdateLog" where
  "category_count base_id winner_id threshold count_added count_existing player held l =
     (if points player \<ge> threshold then
        (if base_id \<notin> held \<and> winner_id \<notin> held then count_added l else count_existing l)
      else l)"

definition category_due :: "string \<Rightarrow> string \<Rightarrow> int \<Rightarrow> user \<Rightarrow> string set \<Rightarrow> bool" where
  "category_due base_id winner_id threshold player held \<longleftrightarrow>
     points player \<ge> threshold \<and> base_id \<notin> held \<and> winner_id \<notin> held"

definition classify_player :: "int \<Rightarrow> int \<Rightarrow> int \<Rightarrow> user \<Rightarrow> string set \<Rightarrow> RoleUpdateLog \<Rightarrow> RoleUpdateLog" where
  "classify_player wlThreshold mlThreshold freemintThreshold player held l =
     category_count FREE_MINT_ROLE_ID FREE_MINT_WINNER_ROLE_ID freemintThreshold
         freemint_added freemint_existing player held
       (category_count MOOLALIST_ROLE_ID ML_WINNER_ROLE_ID mlThreshold
           moolalist_added moolalist_existing player held
         (category_count WHITELIST_ROLE_ID WL_WINNER_ROLE_ID wlThreshold
             whitelist_added whitelist_existing player held l))"

definition due_roles :: "int \<Rightarrow> int \<Rightarrow> int \<Rightarrow> user \<Rightarrow> string set \<Rightarrow> string set" where
  "due_roles wlThreshold mlThreshold freemintThreshold player held =
     (if category_due WHITELIST_ROLE_ID WL_WINNER_ROLE_ID wlThreshold player held
      then {WHITELIST_ROLE_ID} else {})
     \<union> (if category_due MOOLALIST_ROLE_ID ML_WINNER_ROLE_ID mlThreshold player held
        then {MOOLALIST_ROLE_ID} else {})
     \<union> (if category_due FREE_MINT_ROLE_ID FREE_MINT_WINNER_ROLE_ID freemintThreshold player held
        then {FREE_MINT_ROLE_ID} else {})"

section \<open>CSV creation\<close>

text \<open>
  The text of a JavaScript number that holds an integer, as a template literal prints it
  (below 10 to the 21, where JavaScript switches to the exponent form), and of a
  nullable string (\<open>null\<close> prints as the four letters).
\<close>

fun digits :: "nat \<Rightarrow> string" where
  "digits n =
     (if n < 10 then [''0123456789'' ! n]
      else digits (n div 10) @ [''0123456789'' ! (n mod 10)])"

definition number_to_string :: "int \<Rightarrow> string" where
  "number_to_string i = (if i < 0 then CHR ''-'' # digits (nat (- i)) else digits (nat i))"

definition nullable_to_string :: "string option \<Rightarrow> string" where
  "nullable_to_string v = (case v of None \<Rightarrow> ''null'' | Some s \<Rightarrow> s)"

text \<open>\<open>Array.prototype.join\<close> on an array of strings.\<close>

fun join :: "string \<Rightarrow> string list \<Rightarrow> string" where
  "join sep [] = []"
| "join sep [x] = x"
| "join sep (x # y # ys) = x @ sep @ join sep (y # ys)"

text \<open>
  The batched fetch: one call for each slice of fifty ids. A rejected call is logged and
  its slice is skipped; an accepted call returns the members it found, which are stored
  under their id.
\<close>

function fetch_batches ::
  "guild \<Rightarrow> string list \<Rightarrow> nat \<Rightarrow> (string \<Rightarrow> string set option) \<Rightarrow> (string \<Rightarrow> string set option)" where
  "fetch_batches g memberIds i membersMap =
     (if i < length memberIds then
        (let batch = take 50 (drop i memberIds) in
           fetch_batches g memberIds (i + 50)
             (if batch_rejects g batch then membersMap
              else foldl (\<lambda>m member_id.
                     case members g member_id of
                       None \<Rightarrow> m
                     | Some held \<Rightarrow> m(member_id \<mapsto> held)) membersMap batch))
      else membersMap)"
  by pat_completeness auto
termination
  by (relation "measure (\<lambda>(g, memberIds, i, membersMap). length memberIds - i)") auto

declare fetch_batches.simps [simp del]

definition has_either :: "(string \<Rightarrow> string set option) \<Rightarrow> string \<Rightarrow> string \<Rightarrow> string \<Rightarrow> bool" where
  "has_either membersMap member_id base_id winner_id =
     (case membersMap member_id of
        None \<Rightarrow> False
      | Some held \<Rightarrow> base_id \<in> held \<or> winner_id \<in> held)"

definition yes_no :: "bool \<Rightarrow> string" where
  "yes_no b = (if b then ''Y'' else ''N'')"

definition csv_row :: "bool \<Rightarrow> (string \<Rightarrow> string set option) \<Rightarrow> user \<Rightarrow> string" where
  "csv_row includeDiscordId membersMap u =
     (let hasWL = yes_no (has_either membersMap (discord_id u) WHITELIST_ROLE_ID WL_WINNER_ROLE_ID);
          hasML = yes_no (has_either membersMap (discord_id u) MOOLALIST_ROLE_ID ML_WINNER_ROLE_ID);
          hasFreeMint = yes_no (has_either membersMap (discord_id u) FREE_MINT_ROLE_ID FREE_MINT_WINNER_ROLE_ID)
      in if includeDiscordId then
           discord_id u @ '','' @ nullable_to_string (address u) @ '','' @ number_to_string (points u)
             @ '','' @ hasWL @ '','' @ hasML @ '','' @ hasFreeMint
         else
           nullable_to_string (address u) @ '','' @ number_to_string (points u)
             @ '','' @ hasWL @ '','' @ hasML @ '','' @ hasFreeMint)"

definition createCSV :: "user list \<Rightarrow> bool \<Rightarrow> guild \<Rightarrow> string" where
  "createCSV data includeDiscordId g =
     (let header = (if includeDiscordId
                    then ''discord_id,address,points,wl_role,ml_role,free_mint_role\<newline>''
                    else ''address,points,wl_role,ml_role,free_mint_role\<newline>'');
          memberIds = filter (\<lambda>member_id. member_id \<noteq> []) (map discord_id data);
          membersMap = fetch_batches g memberIds 0 Map.empty;
          rows = map (csv_row includeDiscordId membersMap) data
      in header @ join ''\<newline>'' rows)"

text \<open>
  The format as the specification words it, over rows whose three role flags are
  already resolved: a fixed header line, then one line for each row, in the order of the
  input, each the values joined by commas with the letter Y or N for a flag. It is
  written out on its own, with none of the functions createCSV is built from: the
  decimal text of the points, the word \<open>null\<close> for a missing address, the letters and
  the separators are all spelled here.
\<close>

record flagged_row =
  row_user :: user
  wl_role :: bool
  ml_role :: bool
  free_mint_role :: bool

definition digit_text :: "nat \<Rightarrow> string" where
  "digit_text d =
     (if d = 0 then ''0'' else if d = 1 then ''1'' else if d = 2 then ''2''
      else if d = 3 then ''3'' else if d = 4 then ''4'' else if d = 5 then ''5''
      else if d = 6 then ''6'' else if d = 7 then ''7'' else if d = 8 then ''8''
      else ''9'')"

fun decimal_nat :: "nat \<Rightarrow> string" where
  "decimal_nat n =
     (if n < 10 then digit_text n else decimal_nat (n div 10) @ digit_text (n mod 10))"

declare decimal_nat.simps [simp del]

definition decimal_text :: "int \<Rightarrow> string" where
  "decimal_text i = (if i < 0 then ''-'' @ decimal_nat (nat (- i)) else decimal_nat (nat i))"

definition format_line :: "bool \<Rightarrow> flagged_row \<Rightarrow> string" where
  "format_line includeId r =
     (if includeId then discord_id (row_user r) @ '','' else [])
     @ (case address (row_user r) of None \<Rightarrow> ''null'' | Some a \<Rightarrow> a)
     @ '','' @ decimal_text (points (row_user r))
     @ '','' @ (if wl_role r then ''Y'' else ''N'')
     @ '','' @ (if ml_role r then ''Y'' else ''N'')
     @ '','' @ (if free_mint_role r then ''Y'' else ''N'')"

definition format_csv :: "flagged_row list \<Rightarrow> bool \<Rightarrow> string" where
  "format_csv rows includeId =
     (if includeId then ''discord_id,address,points,wl_role,ml_role,free_mint_role''
      else ''address,points,wl_role,ml_role,free_mint_role'')
     @ ''\<newline>''
     @ (case rows of
          [] \<Rightarrow> []
        | r # rs \<Rightarrow>
            format_line includeId r
            @ concat (map (\<lambda>x. ''\<newline>'' @ format_line includeId x) rs))"

text \<open>
  The flags of a row, read from a table of members: a flag is set when the member is in
  the table and holds the base role or the winner role of the category.
\<close>

definition resolve_flags :: "(string \<Rightarrow> string set option) \<Rightarrow> user \<Rightarrow> flagged_row" where
  "resolve_flags membersMap u =
     (case membersMap (discord_id u) of
        None \<Rightarrow> \<lparr>row_user = u, wl_role = False, ml_role = False, free_mint_role = False\<rparr>
      | Some held \<Rightarrow>
          \<lparr>row_user = u,
           wl_role = (WHITELIST_ROLE_ID \<in> held \<or> WL_WINNER_ROLE_ID \<in> held),
           ml_role = (MOOLALIST_ROLE_ID \<in> held \<or> ML_WINNER_ROLE_ID \<in> held),
           free_mint_role = (FREE_MINT_ROLE_ID \<in> held \<or> FREE_MINT_WINNER_ROLE_ID \<in> held)\<rparr>)"

section \<open>Leaderboard\<close>

definition EXCLUDED_USER_IDS :: "string list" where
  "EXCLUDED_USER_IDS = [''649377665496776724'', ''534027215973646346'', ''144683637718122496'']"

text \<open>
  A filtered read of the \<open>users\<close> table ordered by points, highest first. Rows with
  equal points keep the order the store holds them in.
\<close>

definition select_ranked :: "(user \<Rightarrow> bool) \<Rightarrow> user list \<Rightarrow> user list" where
  "select_ranked where_clause rows = sort_key (\<lambda>u. - points u) (filter where_clause rows)"

text \<open>The query of \<open>index.ts\<close>: the team filter is left out for the option \<open>all\<close>.\<close>

definition rank_query :: "string \<Rightarrow> user list \<Rightarrow> user list" where
  "rank_query teamOption rows =
     select_ranked
       (\<lambda>u. discord_id u \<notin> set EXCLUDED_USER_IDS \<and> (teamOption = ''all'' \<or> team u = Some teamOption))
       rows"

text \<open>The query of the earlier revision of the bot, which always filters by team.\<close>

definition rank_query_part_000 :: "string \<Rightarrow> user list \<Rightarrow> user list" where
  "rank_query_part_000 teamOption rows =
     select_ranked
       (\<lambda>u. discord_id u \<notin> set EXCLUDED_USER_IDS \<and> team u = Some teamOption)
       rows"

text \<open>
  \<open>.range(from, to)\<close>: the rows at the zero-based positions \<open>from\<close> to \<open>to\<close>, both
  included. The store answers a negative offset with an error. Whether it answers a
  range past the last row with no rows or with an error is the store's matter: the call
  \<open>Select_page from to\<close> carries the range, so \<open>rejects\<close> can say either.
\<close>

definition range_rows :: "int \<Rightarrow> int \<Rightarrow> 'a list \<Rightarrow> 'a list option" where
  "range_rows from to rows =
     (if from < 0 then None
      else Some (take (nat (to - from + 1)) (drop (nat from) rows)))"

fun findIndex :: "('a \<Rightarrow> bool) \<Rightarrow> 'a list \<Rightarrow> int" where
  "findIndex P [] = - 1"
| "findIndex P (x # xs) =
     (if P x then 0
      else (let i = findIndex P xs in if i = - 1 then - 1 else i + 1))"

definition element_at :: "'a list \<Rightarrow> int \<Rightarrow> 'a option" where
  "element_at xs i = (if 0 \<le> i \<and> i < int (length xs) then Some (xs ! nat i) else None)"

record lb_entry =
  position :: int
  player :: user
  username :: string

text \<open>
  What the handler sends. Of the embed, the fields the claims are about are kept: the
  caller's rank line, the entry lines with their position, the footer and the state of
  the two buttons. Colours, emoji and number formatting are left out.
\<close>

record board =
  your_rank :: "(int \<times> user) option"
  entries :: "lb_entry list"
  footer_page :: int
  footer_total :: int
  prev_disabled :: bool
  next_disabled :: bool

datatype reply = Message string | Embed board

definition own_rank :: "store \<Rightarrow> user list \<Rightarrow> string \<Rightarrow> (int \<times> user) option" where
  "own_rank st ranked caller =
     (let allUsers = (if rejects st Select_rank then None else Some ranked);
          userRank = (case allUsers of
                        None \<Rightarrow> - 1
                      | Some us \<Rightarrow> findIndex (\<lambda>u. discord_id u = caller) us);
          userData = (case allUsers of None \<Rightarrow> None | Some us \<Rightarrow> element_at us userRank)
      in case userData of
           None \<Rightarrow> None
         | Some d \<Rightarrow> if userRank \<noteq> - 1 then Some (userRank + 1, d) else None)"

definition page_query :: "store \<Rightarrow> user list \<Rightarrow> int \<Rightarrow> int \<Rightarrow> (user list \<times> nat) option" where
  "page_query st ranked from to =
     (if rejects st (Select_page from to) then None
      else (case range_rows from to ranked of
              None \<Rightarrow> None
            | Some leaderboardData \<Rightarrow> Some (leaderboardData, length ranked)))"

text \<open>
  The entry lines: \<open>client.users.fetch\<close> gives the user name (\<open>None\<close> when it rejects,
  which rejects the whole \<open>Promise.all\<close>), and the position is \<open>skip + index + 1\<close>.
\<close>

definition leaderboardEntries ::
  "(string \<Rightarrow> string option) \<Rightarrow> int \<Rightarrow> user list \<Rightarrow> lb_entry list option" where
  "leaderboardEntries usernames skip leaderboardData =
     those (map (\<lambda>(index, entry).
                   case usernames (discord_id entry) of
                     None \<Rightarrow> None
                   | Some name \<Rightarrow>
                       Some \<lparr>position = skip + int index + 1, player = entry, username = name\<rparr>)
                (zip [0..<length leaderboardData] leaderboardData))"

definition totalPages_of :: "nat \<Rightarrow> int \<Rightarrow> int" where
  "totalPages_of count itemsPerPage = \<lceil>real count / real_of_int itemsPerPage\<rceil>"

text \<open>\<open>interaction.options.getInteger("page") || 1\<close>: a missing option and 0 read as 1.\<close>

definition page_or_1 :: "int option \<Rightarrow> int" where
  "page_or_1 page_option = (case page_option of None \<Rightarrow> 1 | Some p \<Rightarrow> if p = 0 then 1 else p)"

text \<open>The \<open>/leaderboard\<close> command, for either revision's ranking query.\<close>

definition leaderboard_handler ::
  "(string \<Rightarrow> user list \<Rightarrow> user list) \<Rightarrow> (string \<Rightarrow> string option) \<Rightarrow> store \<Rightarrow> string \<Rightarrow>
   string \<Rightarrow> int option \<Rightarrow> reply" where
  "leaderboard_handler ranked_of usernames st caller teamOption page_option =
     (let page = page_or_1 page_option;
          itemsPerPage = 10;
          skip = (page - 1) * itemsPerPage;
          ranked = ranked_of teamOption (users st);
          rank = own_rank st ranked caller
      in case page_query st ranked skip (skip + itemsPerPage - 1) of
           None \<Rightarrow> Message ''An error occurred while processing the leaderboard command.''
         | Some (leaderboardData, count) \<Rightarrow>
             if leaderboardData = [] then Message ''No users found.''
             else
               (let totalPages = totalPages_of count itemsPerPage in
                  case leaderboardEntries usernames skip leaderboardData of
                    None \<Rightarrow> Message ''An error occurred while processing the leaderboard command.''
                  | Some es \<Rightarrow>
                      Embed \<lparr>your_rank = rank, entries = es, footer_page = page,
                             footer_total = totalPages, prev_disabled = (page \<le> 1),
                             next_disabled = (page \<ge> totalPages)\<rparr>))"

definition leaderboard :: "(string \<Rightarrow> string option) \<Rightarrow> store \<Rightarrow> string \<Rightarrow> string \<Rightarrow> int option \<Rightarrow> reply" where
  "leaderboard = leaderboard_handler rank_query"

definition leaderboard_part_000 :: "(string \<Rightarrow> string option) \<Rightarrow> store \<Rightarrow> string \<Rightarrow> string \<Rightarrow> int option \<Rightarrow> reply" where
  "leaderboard_part_000 = leaderboard_handler rank_query_part_000"

text \<open>
  The pagination buttons. The custom id carries the action, the team option and the
  page shown. \<open>None\<close> is the handler returning without a reply. This handler has no
  test for an empty page: the embed builder refuses the empty field value, and the
  \<open>catch\<close> block answers.
\<close>

definition leaderboard_button_handler ::
  "(string \<Rightarrow> user list \<Rightarrow> user list) \<Rightarrow> (string \<Rightarrow> string option) \<Rightarrow> store \<Rightarrow> string \<Rightarrow>
   string \<Rightarrow> string \<Rightarrow> string \<Rightarrow> int \<Rightarrow> reply option" where
  "leaderboard_button_handler ranked_of usernames st caller command_user action teamOption currentPage =
     (if action \<noteq> ''prev'' \<and> action \<noteq> ''next'' then None
      else if command_user \<noteq> caller then
        Some (Message ''Only the user who ran this command can use these buttons.'')
      else
        (let newPage = (if action = ''next'' then currentPage + 1 else currentPage - 1);
             itemsPerPage = 10;
             skip = (newPage - 1) * itemsPerPage;
             ranked = ranked_of teamOption (users st);
             rank = own_rank st ranked caller
         in case page_query st ranked skip (skip + itemsPerPage - 1) of
              None \<Rightarrow> Some (Message ''An error occurred while updating the leaderboard.'')
            | Some (leaderboardData, count) \<Rightarrow>
                (let totalPages = totalPages_of count itemsPerPage in
                   case leaderboardEntries usernames skip leaderboardData of
                     None \<Rightarrow> Some (Message ''An error occurred while updating the leaderboard.'')
                   | Some es \<Rightarrow>
                       if es = [] then
                         Some (Message ''An error occurred while updating the leaderboard.'')
                       else
                         Some (Embed \<lparr>your_rank = rank, entries = es, footer_page = newPage,
                                      footer_total = totalPages, prev_disabled = (newPage \<le> 1),
                                      next_disabled = (newPage \<ge> totalPages)\<rparr>))))"

definition leaderboard_button ::
  "(string \<Rightarrow> string option) \<Rightarrow> store \<Rightarrow> string \<Rightarrow> string \<Rightarrow> string \<Rightarrow> string \<Rightarrow> int \<Rightarrow> reply option" where
  "leaderboard_button = leaderboard_button_handler rank_query"

definition leaderboard_button_part_000 ::
  "(string \<Rightarrow> string option) \<Rightarrow> store \<Rightarrow> string \<Rightarrow> string \<Rightarrow> string \<Rightarrow> string \<Rightarrow> int \<Rightarrow> reply option" where
  "leaderboard_button_part_000 = leaderboard_button_handler rank_query_part_000"

section \<open>Point updates: /fine and /transfer\<close>

definition ADMIN_ROLE_IDS :: "string list" where
  "ADMIN_ROLE_IDS =
     [''1230906668066406481'', ''1230195803877019718'', ''1230906465334853785'',
      ''1234239721165815818'']"

text \<open>
  The member of the interaction is given by its role ids; \<open>None\<close> stands for a null
  member or one that is not a guild member with a role manager.
\<close>

definition hasAdminRole :: "string set option \<Rightarrow> bool" where
  "hasAdminRole member =
     (case member of
        None \<Rightarrow> False
      | Some held \<Rightarrow> (\<exists>role\<in>held. role \<in> set ADMIN_ROLE_IDS))"

text \<open>
  \<open>.eq("discord_id", id).single()\<close> gives the pair of \<open>error\<close> and \<open>data\<close>: the row when
  exactly one row matches, and an error with null data otherwise.
\<close>

definition single :: "store \<Rightarrow> string \<Rightarrow> bool \<times> user option" where
  "single st member_id =
     (if rejects st (Select_single member_id) then (True, None)
      else (case filter (\<lambda>u. discord_id u = member_id) (users st) of
              [u] \<Rightarrow> (False, Some u)
            | _ \<Rightarrow> (True, None)))"

text \<open>
  \<open>.update({ points: v }).eq("discord_id", id)\<close> gives the error and the store after the
  call: the points are set to \<open>v\<close>, not incremented.
\<close>

definition update_points :: "store \<Rightarrow> string \<Rightarrow> int \<Rightarrow> bool \<times> store" where
  "update_points st member_id v =
     (if rejects st (Update_points member_id) then (True, st)
      else (False,
            st\<lparr>users := map (\<lambda>u. if discord_id u = member_id then u\<lparr>points := v\<rparr> else u)
                            (users st)\<rparr>))"

text \<open>
  The \<open>/fine\<close> command: the member who calls, the \<open>user\<close> option (an id) and the
  \<open>amount\<close> option. The result is the reply and the store afterwards.
\<close>

definition fine :: "store \<Rightarrow> string set option \<Rightarrow> string option \<Rightarrow> int option \<Rightarrow> reply \<times> store" where
  "fine st member targetUser amount_option =
     (if \<not> hasAdminRole member then
        (Message ''You don't have permission to use this command.'', st)
      else
        (case (targetUser, amount_option) of
           (Some target, Some amount) \<Rightarrow>
             if amount = 0 \<or> amount \<le> 0 then
               (Message ''Please provide a valid user and a positive amount.'', st)
             else
               (case single st target of
                  (False, Some userData) \<Rightarrow>
                    (let currentPoints = points userData;
                         fineAmount = amount
                     in if currentPoints < fineAmount then
                          (Message ''The user doesn't have enough points for this fine.'', st)
                        else
                          (let updatedPoints = currentPoints - fineAmount in
                             case update_points st target updatedPoints of
                               (True, st') \<Rightarrow>
                                 (Message ''An error occurred while processing the fine command.'', st')
                             | (False, st') \<Rightarrow>
                                 (Message (''Successfully fined <@'' @ target @ ''> ''
                                     @ number_to_string amount @ '' points. Their new balance is ''
                                     @ number_to_string updatedPoints @ '' points.''), st')))
                | _ \<Rightarrow> (Message ''User not found or an error occurred.'', st))
         | _ \<Rightarrow> (Message ''Please provide a valid user and a positive amount.'', st)))"

text \<open>
  The \<open>/transfer\<close> command: \<open>userId\<close> is the caller, who is the sender. The test of the
  options is \<open>!targetUser || !amount\<close>: a missing user, a missing amount and the
  amount 0 are refused there, and nothing else is.
\<close>

definition transfer ::
  "store \<Rightarrow> string set option \<Rightarrow> string \<Rightarrow> string option \<Rightarrow> int option \<Rightarrow> reply \<times> store" where
  "transfer st member userId targetUser amount_option =
     (if \<not> hasAdminRole member then
        (Message ''You don't have permission to use this command.'', st)
      else
        (case (targetUser, amount_option) of
           (Some target, Some amount) \<Rightarrow>
             if amount = 0 then (Message ''Please provide a valid user and amount.'', st)
             else
               (case single st userId of
                  (False, Some senderData) \<Rightarrow>
                    if points senderData < amount then
                      (Message ''Insufficient points to transfer.'', st)
                    else
                      (case single st target of
                         (True, _) \<Rightarrow>
                           (Message ''An error occurred while fetching the receiver.'', st)
                       | (False, None) \<Rightarrow> (Message ''The specified user does not exist.'', st)
                       | (False, Some receiverData) \<Rightarrow>
                           (let updatedSenderPoints = points senderData - amount;
                                updatedReceiverPoints = points receiverData + amount
                            in case update_points st userId updatedSenderPoints of
                                 (True, st1) \<Rightarrow>
                                   (Message ''An error occurred while updating sender points.'', st1)
                               | (False, st1) \<Rightarrow>
                                   (case update_points st1 target updatedReceiverPoints of
                                      (True, st2) \<Rightarrow>
                                        (Message ''An error occurred while updating receiver points.'', st2)
                                    | (False, st2) \<Rightarrow>
                                        (Message (''Successfully transferred '' @ number_to_string amount
                                            @ '' points to <@'' @ target @ ''>.''), st2))))
                | _ \<Rightarrow> (Message ''An error occurred while fetching the sender.'', st))
         | _ \<Rightarrow> (Message ''Please provide a valid user and amount.'', st)))"

section \<open>Concrete snapshots\<close>

text \<open>
  The reconcile scenario of the specification: member \<open>a\<close> with 150 points and member
  \<open>b\<close> with 50, both on team beras (the winning team of this store), in a guild that has
  the six roles and where neither member holds any of them.
\<close>

definition six_roles :: "string set" where
  "six_roles =
     {WHITELIST_ROLE_ID, MOOLALIST_ROLE_ID, FREE_MINT_ROLE_ID, WL_WINNER_ROLE_ID,
      ML_WINNER_ROLE_ID, FREE_MINT_WINNER_ROLE_ID}"

definition accepting :: "store_call \<Rightarrow> bool" where
  "accepting c = False"

definition member_a :: user where
  "member_a = \<lparr>discord_id = ''a'', address = None, points = 150, team = Some ''beras''\<rparr>"

definition member_b :: user where
  "member_b = \<lparr>discord_id = ''b'', address = None, points = 50, team = Some ''beras''\<rparr>"

definition scenario_store :: store where
  "scenario_store = \<lparr>users = [member_a, member_b], rejects = accepting\<rparr>"

definition scenario_guild :: guild where
  "scenario_guild =
     \<lparr>roles_cache = six_roles,
      members = [''a'' \<mapsto> {}, ''b'' \<mapsto> {}],
      add_rejects = (\<lambda>member_id role_id. False),
      batch_rejects = (\<lambda>batch. False)\<rparr>"

text \<open>The same guild when the bot may not grant roles: every \<open>roles.add\<close> rejects.\<close>

definition refusing_guild :: guild where
  "refusing_guild = scenario_guild\<lparr>add_rejects := (\<lambda>member_id role_id. True)\<rparr>"

text \<open>Member \<open>a\<close> already on the moolalist, with grants working and with grants refused.\<close>

definition holder_guild :: guild where
  "holder_guild = scenario_guild\<lparr>members := [''a'' \<mapsto> {MOOLALIST_ROLE_ID}, ''b'' \<mapsto> {}]\<rparr>"

definition refusing_holder_guild :: guild where
  "refusing_holder_guild = holder_guild\<lparr>add_rejects := (\<lambda>member_id role_id. True)\<rparr>"

text \<open>A store in which the two teams are level, 100 points each.\<close>

definition tied_store :: store where
  "tied_store =
     \<lparr>users =
        [\<lparr>discord_id = ''a'', address = None, points = 100, team = Some ''bullas''\<rparr>,
         \<lparr>discord_id = ''b'', address = None, points = 100, team = Some ''beras''\<rparr>],
      rejects = accepting\<rparr>"

text \<open>An administrator, a user with 30 points, and a sender and a receiver.\<close>

definition admin_member :: "string set option" where
  "admin_member = Some {''1230906668066406481''}"

definition fine_store :: store where
  "fine_store =
     \<lparr>users = [\<lparr>discord_id = ''u'', address = None, points = 30, team = None\<rparr>],
      rejects = accepting\<rparr>"

definition transfer_store :: store where
  "transfer_store =
     \<lparr>users =
        [\<lparr>discord_id = ''s'', address = None, points = 10, team = None\<rparr>,
         \<lparr>discord_id = ''r'', address = None, points = 20, team = None\<rparr>],
      rejects = accepting\<rparr>"

text \<open>
  The CSV scenario of the specification: one row, and a guild in which that member holds
  a team role and none of the six list roles.
\<close>

definition csv_user :: user where
  "csv_user = \<lparr>discord_id = ''1'', address = Some ''0xABC'', points = 10, team = Some ''bullas''\<rparr>"

definition csv_guild :: guild where
  "csv_guild = scenario_guild\<lparr>members := [''1'' \<mapsto> {''1230207362145452103''}]\<rparr>"

text \<open>
  Two rows for the CSV whose flags differ: member 7 holds the whitelist role and the
  free-mint winner role, member 8 holds the moolalist winner role and has no address.
\<close>

definition flag_rows :: "user list" where
  "flag_rows =
     [\<lparr>discord_id = ''7'', address = Some ''0x1'', points = 1250, team = Some ''bullas''\<rparr>,
      \<lparr>discord_id = ''8'', address = None, points = - 3, team = Some ''beras''\<rparr>]"

definition flag_guild :: guild where
  "flag_guild =
     scenario_guild\<lparr>members :=
       [''7'' \<mapsto> {WHITELIST_ROLE_ID, FREE_MINT_WINNER_ROLE_ID}, ''8'' \<mapsto> {ML_WINNER_ROLE_ID}]\<rparr>"

text \<open>
  A store in which team beras has more points, 300 against 100, and the call for the
  beras sum fails.
\<close>

definition half_answering_store :: store where
  "half_answering_store =
     \<lparr>users =
        [\<lparr>discord_id = ''a'', address = None, points = 100, team = Some ''bullas''\<rparr>,
         \<lparr>discord_id = ''b'', address = None, points = 300, team = Some ''beras''\<rparr>],
      rejects = (\<lambda>c. c = Rpc_sum_points ''beras'')\<rparr>"

text \<open>
  A store for the leaderboard: 25 bullas whose points are ten times their number, one
  bera, and one bulla with the most points whose id is on the exclusion list. The id of
  member \<open>n\<close> is the letter \<open>x\<close> written \<open>n\<close> times. Every user name can be fetched.
\<close>

definition bulla :: "nat \<Rightarrow> user" where
  "bulla n = \<lparr>discord_id = replicate n (CHR ''x''), address = None, points = 10 * int n,
              team = Some ''bullas''\<rparr>"

definition board_store :: store where
  "board_store =
     \<lparr>users =
        \<lparr>discord_id = ''649377665496776724'', address = None, points = 1000, team = Some ''bullas''\<rparr>
        # \<lparr>discord_id = ''y'', address = None, points = 500, team = Some ''beras''\<rparr>
        # map bulla [1..<26],
      rejects = accepting\<rparr>"

definition known_names :: "string \<Rightarrow> string option" where
  "known_names member_id = Some (''user-'' @ member_id)"

section \<open>The reconciler only ever adds roles\<close>

definition keeps_roles :: "guild \<Rightarrow> guild \<Rightarrow> bool" where
  "keeps_roles g g' \<longleftrightarrow>
     (\<forall>m held. members g m = Some held \<longrightarrow> (\<exists>held'. members g' m = Some held' \<and> held \<subseteq> held'))"

lemmas role_ids =
  WHITELIST_ROLE_ID_def MOOLALIST_ROLE_ID_def FREE_MINT_ROLE_ID_def
  FREE_MINT_WINNER_ROLE_ID_def WL_WINNER_ROLE_ID_def ML_WINNER_ROLE_ID_def

lemma keeps_roles_refl: "keeps_roles g g"
  by (simp add: keeps_roles_def)

lemma keeps_roles_trans: "keeps_roles g g' \<Longrightarrow> keeps_roles g' g'' \<Longrightarrow> keeps_roles g g''"
  unfolding keeps_roles_def by (meson subset_trans)

lemma roles_add_keeps: "roles_add g m r = Some g' \<Longrightarrow> keeps_roles g g'"
  by (auto simp: roles_add_def keeps_roles_def split: option.splits if_splits)

lemma category_step_keeps:
  assumes "category_step sim b w t ca ce p held s = r"
  shows "keeps_roles (snd s) (snd (case r of Inl x \<Rightarrow> x | Inr x \<Rightarrow> x))"
  using assms
  by (auto simp: category_step_def keeps_roles_refl roles_add_keeps
      split: if_splits option.splits)

lemma try_player_keeps: "keeps_roles (snd s) (snd (try_player sim wl ml fm p s))"
proof (cases "members (snd s) (discord_id p)")
  case None
  then show ?thesis by (simp add: try_player_def keeps_roles_refl)
next
  case (Some held)
  let ?r1 = "whitelist_step sim wl p held s"
  have k1: "keeps_roles (snd s) (snd (case ?r1 of Inl x \<Rightarrow> x | Inr x \<Rightarrow> x))"
    unfolding whitelist_step_def by (rule category_step_keeps) simp
  show ?thesis
  proof (cases ?r1)
    case (Inl s1)
    with Some k1 show ?thesis by (simp add: try_player_def)
  next
    case r1: (Inr s1)
    let ?r2 = "moolalist_step sim ml p held s1"
    have k2: "keeps_roles (snd s1) (snd (case ?r2 of Inl x \<Rightarrow> x | Inr x \<Rightarrow> x))"
      unfolding moolalist_step_def by (rule category_step_keeps) simp
    show ?thesis
    proof (cases ?r2)
      case (Inl s2)
      with Some r1 k1 k2 show ?thesis
        by (auto simp: try_player_def intro: keeps_roles_trans)
    next
      case r2: (Inr s2)
      let ?r3 = "freemint_step sim fm p held s2"
      have k3: "keeps_roles (snd s2) (snd (case ?r3 of Inl x \<Rightarrow> x | Inr x \<Rightarrow> x))"
        unfolding freemint_step_def by (rule category_step_keeps) simp
      from k1 r1 k2 r2 have k12: "keeps_roles (snd s) (snd s2)"
        by (auto intro: keeps_roles_trans)
      from Some r1 r2 k12 k3 show ?thesis
        by (cases ?r3) (auto simp: try_player_def intro: keeps_roles_trans)
    qed
  qed
qed

lemma player_step_keeps: "keeps_roles (snd s) (snd (player_step sim wl ml fm s p))"
  by (simp add: player_step_def try_player_keeps keeps_roles_refl)

lemma foldl_player_step_keeps:
  "keeps_roles (snd s) (snd (foldl (player_step sim wl ml fm) s players))"
proof (induction players arbitrary: s)
  case Nil
  show ?case by (simp add: keeps_roles_refl)
next
  case (Cons p players)
  have "keeps_roles (snd s) (snd (player_step sim wl ml fm s p))"
    by (rule player_step_keeps)
  moreover have "keeps_roles (snd (player_step sim wl ml fm s p))
      (snd (foldl (player_step sim wl ml fm) (player_step sim wl ml fm s p) players))"
    by (rule Cons.IH)
  ultimately show ?case by (auto intro: keeps_roles_trans)
qed

lemma updateRoles_keeps: "keeps_roles g (snd (updateRoles g st teamType wl ml fm sim))"
proof -
  have "keeps_roles (snd (empty_log, g))
      (snd (foldl (player_step sim wl ml fm) (empty_log, g) players))" for players
    by (rule foldl_player_step_keeps)
  then show ?thesis
    by (auto simp: updateRoles_def keeps_roles_refl split: option.splits)
qed

text \<open>
  C2. A run of updateRoles, simulated or real, never removes a role: whatever the
  population and the thresholds, a member who held the role set \<open>held\<close> before the run is
  still a member after it and holds a superset of \<open>held\<close>.
\<close>

theorem updateRoles_additive_only:
  assumes "members g m = Some held"
  shows "\<exists>held'. members (snd (updateRoles g st teamType wl ml fm sim)) m = Some held'
           \<and> held \<subseteq> held'"
  using updateRoles_keeps [of g st teamType wl ml fm sim] assms
  by (simp add: keeps_roles_def)

theorem updateRoles_additive_only_witness:
  "members holder_guild ''a'' = Some {MOOLALIST_ROLE_ID}
   \<and> (\<exists>held'. members (snd (updateRoles holder_guild scenario_store ''winning'' 100 200 500 False)) ''a''
            = Some held' \<and> {MOOLALIST_ROLE_ID} \<subseteq> held')"
proof -
  have h: "members holder_guild ''a'' = Some {MOOLALIST_ROLE_ID}"
    by (simp add: holder_guild_def scenario_guild_def)
  from updateRoles_additive_only [OF h] h show ?thesis by simp
qed

section \<open>What one pass of the loop body does\<close>

lemma category_step_sim:
  "category_step True b w t ca ce p held s = Inr (category_count b w t ca ce p held (fst s), snd s)"
  by (simp add: category_step_def category_count_def)

lemma members_update_same:
  "members g m = Some h \<Longrightarrow> g\<lparr>members := (members g)(m \<mapsto> h)\<rparr> = g"
  by (simp add: fun_upd_idem)

lemma category_step_real:
  assumes "members (snd s) (discord_id p) = Some h"
    and "\<not> add_rejects (snd s) (discord_id p) b"
  shows "category_step False b w t ca ce p held s =
    Inr (category_count b w t ca ce p held (fst s),
         (snd s)\<lparr>members := (members (snd s))(discord_id p \<mapsto>
            (if category_due b w t p held then insert b h else h))\<rparr>)"
  using assms
  by (auto simp: category_step_def category_count_def category_due_def roles_add_def
      members_update_same prod_eq_iff)

lemma try_player_sim:
  assumes "members (snd s) (discord_id p) = Some held"
  shows "try_player True wl ml fm p s = (classify_player wl ml fm p held (fst s), snd s)"
  using assms
  by (simp add: try_player_def whitelist_step_def moolalist_step_def freemint_step_def
      category_step_sim classify_player_def)

lemma try_player_real:
  assumes "members (snd s) (discord_id p) = Some held"
    and "\<forall>r. \<not> add_rejects (snd s) (discord_id p) r"
  shows "try_player False wl ml fm p s =
    (classify_player wl ml fm p held (fst s),
     (snd s)\<lparr>members := (members (snd s))(discord_id p \<mapsto> held \<union> due_roles wl ml fm p held)\<rparr>)"
proof -
  let ?id = "discord_id p"
  obtain s1 where s1: "whitelist_step False wl p held s = Inr s1"
    and l1: "fst s1 = category_count WHITELIST_ROLE_ID WL_WINNER_ROLE_ID wl whitelist_added whitelist_existing p held (fst s)"
    and g1: "snd s1 = (snd s)\<lparr>members := (members (snd s))(?id \<mapsto>
            (if category_due WHITELIST_ROLE_ID WL_WINNER_ROLE_ID wl p held then insert WHITELIST_ROLE_ID held else held))\<rparr>"
    using assms by (simp add: whitelist_step_def category_step_real)
  obtain h1 where h1: "members (snd s1) ?id = Some h1"
    and h1_eq: "h1 = (if category_due WHITELIST_ROLE_ID WL_WINNER_ROLE_ID wl p held then insert WHITELIST_ROLE_ID held else held)"
    and r1: "\<forall>r. \<not> add_rejects (snd s1) ?id r"
    using g1 assms by simp
  obtain s2 where s2: "moolalist_step False ml p held s1 = Inr s2"
    and l2: "fst s2 = category_count MOOLALIST_ROLE_ID ML_WINNER_ROLE_ID ml moolalist_added moolalist_existing p held (fst s1)"
    and g2: "snd s2 = (snd s1)\<lparr>members := (members (snd s1))(?id \<mapsto>
            (if category_due MOOLALIST_ROLE_ID ML_WINNER_ROLE_ID ml p held then insert MOOLALIST_ROLE_ID h1 else h1))\<rparr>"
    using h1 r1 by (simp add: moolalist_step_def category_step_real)
  obtain h2 where h2: "members (snd s2) ?id = Some h2"
    and h2_eq: "h2 = (if category_due MOOLALIST_ROLE_ID ML_WINNER_ROLE_ID ml p held then insert MOOLALIST_ROLE_ID h1 else h1)"
    and r2: "\<forall>r. \<not> add_rejects (snd s2) ?id r"
    using g2 r1 by simp
  obtain s3 where s3: "freemint_step False fm p held s2 = Inr s3"
    and l3: "fst s3 = category_count FREE_MINT_ROLE_ID FREE_MINT_WINNER_ROLE_ID fm freemint_added freemint_existing p held (fst s2)"
    and g3: "snd s3 = (snd s2)\<lparr>members := (members (snd s2))(?id \<mapsto>
            (if category_due FREE_MINT_ROLE_ID FREE_MINT_WINNER_ROLE_ID fm p held then insert FREE_MINT_ROLE_ID h2 else h2))\<rparr>"
    using h2 r2 by (simp add: freemint_step_def category_step_real)
  have "try_player False wl ml fm p s = s3"
    using assms(1) s1 s2 s3 by (simp add: try_player_def)
  moreover have "fst s3 = classify_player wl ml fm p held (fst s)"
    using l1 l2 l3 by (simp add: classify_player_def)
  moreover have "snd s3 = (snd s)\<lparr>members := (members (snd s))(?id \<mapsto> held \<union> due_roles wl ml fm p held)\<rparr>"
    unfolding g3 g2 g1 h2_eq h1_eq by (auto simp: due_roles_def)
  ultimately show ?thesis by (simp add: prod_eq_iff)
qed

lemma classification_member:
  assumes "discord_id p \<noteq> []"
    and "members g (discord_id p) = Some held"
    and "sim \<or> (\<forall>r. \<not> add_rejects g (discord_id p) r)"
  shows "player_step sim wl ml fm (l, g) p = (classify_player wl ml fm p held l,
     if sim then g else g\<lparr>members := (members g)(discord_id p \<mapsto> held \<union> due_roles wl ml fm p held)\<rparr>)"
  using assms by (cases sim) (simp_all add: player_step_def try_player_sim try_player_real)

lemma player_step_sim_guild: "snd (player_step True wl ml fm s p) = snd s"
  by (cases "members (snd s) (discord_id p)")
     (simp_all add: player_step_def try_player_sim, simp add: try_player_def)

lemma dry_run_fold:
  assumes "\<forall>m r. \<not> add_rejects gr m r"
    and "distinct (map discord_id ps)"
    and "\<forall>p\<in>set ps. members gr (discord_id p) = members gs (discord_id p)"
  shows "fst (foldl (player_step True wl ml fm) (l, gs) ps)
       = fst (foldl (player_step False wl ml fm) (l, gr) ps)"
  using assms
proof (induction ps arbitrary: l gr)
  case Nil
  show ?case by simp
next
  case (Cons p ps)
  let ?id = "discord_id p"
  have same: "members gr ?id = members gs ?id" using Cons.prems(3) by simp
  have rest: "\<forall>q\<in>set ps. members gr (discord_id q) = members gs (discord_id q)"
    using Cons.prems(3) by simp
  have dist: "distinct (map discord_id ps)" and fresh: "\<forall>q\<in>set ps. discord_id q \<noteq> ?id"
    using Cons.prems(2) by (auto simp: image_iff)
  show ?case
  proof (cases "?id \<noteq> [] \<and> members gs ?id \<noteq> None")
    case False
    then have "player_step True wl ml fm (l, gs) p = (l, gs)"
      and "player_step False wl ml fm (l, gr) p = (l, gr)"
      using same by (auto simp: player_step_def try_player_def)
    then show ?thesis
      using Cons.IH [OF Cons.prems(1) dist rest] by simp
  next
    case True
    then obtain held where held: "members gs ?id = Some held" and ne: "?id \<noteq> []" by auto
    let ?l' = "classify_player wl ml fm p held l"
    let ?gr' = "gr\<lparr>members := (members gr)(?id \<mapsto> held \<union> due_roles wl ml fm p held)\<rparr>"
    have sim: "player_step True wl ml fm (l, gs) p = (?l', gs)"
      using held ne by (simp add: player_step_def try_player_sim)
    have real: "player_step False wl ml fm (l, gr) p = (?l', ?gr')"
      using held ne same Cons.prems(1) by (simp add: player_step_def try_player_real)
    have quiet: "\<forall>m r. \<not> add_rejects ?gr' m r" using Cons.prems(1) by simp
    have rest': "\<forall>q\<in>set ps. members ?gr' (discord_id q) = members gs (discord_id q)"
      using rest fresh by simp
    have "fst (foldl (player_step True wl ml fm) (?l', gs) ps)
       = fst (foldl (player_step False wl ml fm) (?l', ?gr') ps)"
      by (rule Cons.IH [OF quiet dist rest'])
    then show ?thesis using sim real by simp
  qed
qed

lemma foldl_sim_guild: "snd (foldl (player_step True wl ml fm) s ps) = snd s"
  by (induction ps arbitrary: s) (simp_all add: player_step_sim_guild)

section \<open>Simulation against the real run\<close>

text \<open>
  C1, as stated, fails: when \<open>roles.add\<close> rejects, the exception leaves the \<open>try\<close> block
  before the counter is incremented, so the real run counts less than the simulation. In
  the guild where every grant is refused the simulation reports one whitelist addition
  and the real run reports none.
\<close>

theorem dry_run_counterexample:
  "fst (updateRoles refusing_guild scenario_store ''winning'' 100 200 500 True)
   \<noteq> fst (updateRoles refusing_guild scenario_store ''winning'' 100 200 500 False)"
  by code_simp

text \<open>
  C1, amended. When no \<open>roles.add\<close> call is rejected and the rows of the store carry
  pairwise distinct Discord ids, the simulation returns the same counters as the real run
  on the same snapshot; and the simulation leaves every role set as it was.
\<close>

theorem dry_run_equivalence:
  assumes "\<forall>m r. \<not> add_rejects g m r"
    and "distinct (map discord_id (users st))"
  shows "fst (updateRoles g st teamType wl ml fm True) = fst (updateRoles g st teamType wl ml fm False)
       \<and> snd (updateRoles g st teamType wl ml fm True) = g"
proof -
  have "fst (foldl (player_step True wl ml fm) (empty_log, g) (filter P (users st)))
      = fst (foldl (player_step False wl ml fm) (empty_log, g) (filter P (users st)))" for P
    using assms by (intro dry_run_fold) (simp_all add: distinct_map_filter)
  then show ?thesis
    by (auto simp: updateRoles_def select_team_def foldl_sim_guild)
qed

theorem dry_run_equivalence_witness:
  "(\<forall>m r. \<not> add_rejects scenario_guild m r)
   \<and> distinct (map discord_id (users scenario_store))
   \<and> fst (updateRoles scenario_guild scenario_store ''winning'' 100 200 500 True)
       = fst (updateRoles scenario_guild scenario_store ''winning'' 100 200 500 False)
   \<and> snd (updateRoles scenario_guild scenario_store ''winning'' 100 200 500 True) = scenario_guild"
proof -
  have h1: "\<forall>m r. \<not> add_rejects scenario_guild m r"
    by (simp add: scenario_guild_def)
  have h2: "distinct (map discord_id (users scenario_store))"
    by (simp add: scenario_store_def member_a_def member_b_def)
  from dry_run_equivalence [OF h1 h2, of "''winning''" 100 200 500] h1 h2
  show ?thesis by simp
qed

section \<open>Classification of one member\<close>

lemma scenario_log_simulated:
  "fst (updateRoles scenario_guild scenario_store ''winning'' 100 200 500 True)
   = \<lparr>whitelist = \<lparr>added = 1, existing = 0\<rparr>, moolalist = \<lparr>added = 0, existing = 0\<rparr>,
      freemint = \<lparr>added = 0, existing = 0\<rparr>\<rparr>"
  by code_simp

lemma scenario_log_real:
  "fst (updateRoles scenario_guild scenario_store ''winning'' 100 200 500 False)
   = \<lparr>whitelist = \<lparr>added = 1, existing = 0\<rparr>, moolalist = \<lparr>added = 0, existing = 0\<rparr>,
      freemint = \<lparr>added = 0, existing = 0\<rparr>\<rparr>"
  by code_simp

lemma scenario_log:
  "fst (updateRoles scenario_guild scenario_store ''winning'' 100 200 500 sim)
   = \<lparr>whitelist = \<lparr>added = 1, existing = 0\<rparr>, moolalist = \<lparr>added = 0, existing = 0\<rparr>,
      freemint = \<lparr>added = 0, existing = 0\<rparr>\<rparr>"
  by (cases sim) (simp_all only: scenario_log_simulated scenario_log_real)

text \<open>
  C3, as stated, fails for a real run in which a grant is rejected. Member \<open>a\<close> has 150
  points and holds the moolalist role; with both thresholds at 100 the claim counts the
  member as added for the whitelist and as existing for the moolalist. The whitelist
  grant is refused, the exception leaves the \<open>try\<close> block, and neither counter moves.
\<close>

theorem member_classification_counterexample:
  "members refusing_holder_guild ''a'' = Some {MOOLALIST_ROLE_ID}
   \<and> existing (moolalist (fst (updateRoles refusing_holder_guild scenario_store ''winning'' 100 100 500 False))) = 0
   \<and> added (whitelist (fst (updateRoles refusing_holder_guild scenario_store ''winning'' 100 100 500 False))) = 0"
  by code_simp

text \<open>
  C3, amended. For a player with a Discord id whose membership resolves, in a simulation
  or in a real run in which no grant for this member is rejected, the loop body counts,
  for each category whose threshold the points meet, one more under added when the member
  holds neither the base role nor the winner role, and one more under existing when the
  member holds either; a category whose threshold is not met counts nothing. The
  simulation leaves the guild as it is; the real run keeps the member's roles and grants
  the base role of every category counted as added. For the scenario of the
  specification (points 150 and 50, thresholds 100, 200 and 500, no roles held) the
  result is one whitelist addition and nothing else, simulated or real.
\<close>

theorem member_classification:
  "(discord_id p \<noteq> [] \<and> members g (discord_id p) = Some held
      \<and> (sim \<or> (\<forall>r. \<not> add_rejects g (discord_id p) r)) \<longrightarrow>
    (let s' = player_step sim wl ml fm (l, g) p; l' = fst s' in
       added (whitelist l') = added (whitelist l)
         + (if wl \<le> points p \<and> WHITELIST_ROLE_ID \<notin> held \<and> WL_WINNER_ROLE_ID \<notin> held then 1 else 0)
     \<and> existing (whitelist l') = existing (whitelist l)
         + (if wl \<le> points p \<and> (WHITELIST_ROLE_ID \<in> held \<or> WL_WINNER_ROLE_ID \<in> held) then 1 else 0)
     \<and> added (moolalist l') = added (moolalist l)
         + (if ml \<le> points p \<and> MOOLALIST_ROLE_ID \<notin> held \<and> ML_WINNER_ROLE_ID \<notin> held then 1 else 0)
     \<and> existing (moolalist l') = existing (moolalist l)
         + (if ml \<le> points p \<and> (MOOLALIST_ROLE_ID \<in> held \<or> ML_WINNER_ROLE_ID \<in> held) then 1 else 0)
     \<and> added (freemint l') = added (freemint l)
         + (if fm \<le> points p \<and> FREE_MINT_ROLE_ID \<notin> held \<and> FREE_MINT_WINNER_ROLE_ID \<notin> held then 1 else 0)
     \<and> existing (freemint l') = existing (freemint l)
         + (if fm \<le> points p \<and> (FREE_MINT_ROLE_ID \<in> held \<or> FREE_MINT_WINNER_ROLE_ID \<in> held) then 1 else 0)
     \<and> (sim \<longrightarrow> snd s' = g)
     \<and> (\<not> sim \<longrightarrow>
           (\<exists>held'. members (snd s') (discord_id p) = Some held' \<and> held \<subseteq> held'
              \<and> (wl \<le> points p \<and> WHITELIST_ROLE_ID \<notin> held \<and> WL_WINNER_ROLE_ID \<notin> held
                    \<longrightarrow> WHITELIST_ROLE_ID \<in> held')
              \<and> (ml \<le> points p \<and> MOOLALIST_ROLE_ID \<notin> held \<and> ML_WINNER_ROLE_ID \<notin> held
                    \<longrightarrow> MOOLALIST_ROLE_ID \<in> held')
              \<and> (fm \<le> points p \<and> FREE_MINT_ROLE_ID \<notin> held \<and> FREE_MINT_WINNER_ROLE_ID \<notin> held
                    \<longrightarrow> FREE_MINT_ROLE_ID \<in> held')))))
   \<and> (\<forall>simulation.
        fst (updateRoles scenario_guild scenario_store ''winning'' 100 200 500 simulation)
        = \<lparr>whitelist = \<lparr>added = 1, existing = 0\<rparr>, moolalist = \<lparr>added = 0, existing = 0\<rparr>,
           freemint = \<lparr>added = 0, existing = 0\<rparr>\<rparr>)"
proof (intro conjI impI allI)
  fix simulation
  show "fst (updateRoles scenario_guild scenario_store ''winning'' 100 200 500 simulation)
        = \<lparr>whitelist = \<lparr>added = 1, existing = 0\<rparr>, moolalist = \<lparr>added = 0, existing = 0\<rparr>,
           freemint = \<lparr>added = 0, existing = 0\<rparr>\<rparr>"
    by (rule scenario_log)
next
  assume a: "discord_id p \<noteq> [] \<and> members g (discord_id p) = Some held
      \<and> (sim \<or> (\<forall>r. \<not> add_rejects g (discord_id p) r))"
  then have step: "player_step sim wl ml fm (l, g) p = (classify_player wl ml fm p held l,
     if sim then g else g\<lparr>members := (members g)(discord_id p \<mapsto> held \<union> due_roles wl ml fm p held)\<rparr>)"
    by (intro classification_member) simp_all
  show "let s' = player_step sim wl ml fm (l, g) p; l' = fst s' in
       added (whitelist l') = added (whitelist l)
         + (if wl \<le> points p \<and> WHITELIST_ROLE_ID \<notin> held \<and> WL_WINNER_ROLE_ID \<notin> held then 1 else 0)
     \<and> existing (whitelist l') = existing (whitelist l)
         + (if wl \<le> points p \<and> (WHITELIST_ROLE_ID \<in> held \<or> WL_WINNER_ROLE_ID \<in> held) then 1 else 0)
     \<and> added (moolalist l') = added (moolalist l)
         + (if ml \<le> points p \<and> MOOLALIST_ROLE_ID \<notin> held \<and> ML_WINNER_ROLE_ID \<notin> held then 1 else 0)
     \<and> existing (moolalist l') = existing (moolalist l)
         + (if ml \<le> points p \<and> (MOOLALIST_ROLE_ID \<in> held \<or> ML_WINNER_ROLE_ID \<in> held) then 1 else 0)
     \<and> added (freemint l') = added (freemint l)
         + (if fm \<le> points p \<and> FREE_MINT_ROLE_ID \<notin> held \<and> FREE_MINT_WINNER_ROLE_ID \<notin> held then 1 else 0)
     \<and> existing (freemint l') = existing (freemint l)
         + (if fm \<le> points p \<and> (FREE_MINT_ROLE_ID \<in> held \<or> FREE_MINT_WINNER_ROLE_ID \<in> held) then 1 else 0)
     \<and> (sim \<longrightarrow> snd s' = g)
     \<and> (\<not> sim \<longrightarrow>
           (\<exists>held'. members (snd s') (discord_id p) = Some held' \<and> held \<subseteq> held'
              \<and> (wl \<le> points p \<and> WHITELIST_ROLE_ID \<notin> held \<and> WL_WINNER_ROLE_ID \<notin> held
                    \<longrightarrow> WHITELIST_ROLE_ID \<in> held')
              \<and> (ml \<le> points p \<and> MOOLALIST_ROLE_ID \<notin> held \<and> ML_WINNER_ROLE_ID \<notin> held
                    \<longrightarrow> MOOLALIST_ROLE_ID \<in> held')
              \<and> (fm \<le> points p \<and> FREE_MINT_ROLE_ID \<notin> held \<and> FREE_MINT_WINNER_ROLE_ID \<notin> held
                    \<longrightarrow> FREE_MINT_ROLE_ID \<in> held')))"
    unfolding step Let_def
    by (simp add: classify_player_def category_count_def due_roles_def category_due_def
        whitelist_added_def whitelist_existing_def moolalist_added_def moolalist_existing_def
        freemint_added_def freemint_existing_def)
qed

theorem member_classification_witness:
  "discord_id member_a \<noteq> [] \<and> members holder_guild (discord_id member_a) = Some {MOOLALIST_ROLE_ID}
   \<and> (\<forall>r. \<not> add_rejects holder_guild (discord_id member_a) r)
   \<and> added (whitelist (fst (player_step False 100 100 500 (empty_log, holder_guild) member_a))) = 1
   \<and> existing (moolalist (fst (player_step False 100 100 500 (empty_log, holder_guild) member_a))) = 1
   \<and> added (moolalist (fst (player_step False 100 100 500 (empty_log, holder_guild) member_a))) = 0"
proof -
  have h: "discord_id member_a \<noteq> [] \<and> members holder_guild (discord_id member_a) = Some {MOOLALIST_ROLE_ID}
      \<and> (False \<or> (\<forall>r. \<not> add_rejects holder_guild (discord_id member_a) r))"
    by (simp add: member_a_def holder_guild_def scenario_guild_def)
  from member_classification [of member_a holder_guild "{MOOLALIST_ROLE_ID}" False 100 100 500 empty_log]
  have "discord_id member_a \<noteq> [] \<and> members holder_guild (discord_id member_a) = Some {MOOLALIST_ROLE_ID}
      \<and> (False \<or> (\<forall>r. \<not> add_rejects holder_guild (discord_id member_a) r)) \<longrightarrow>
    (let s' = player_step False 100 100 500 (empty_log, holder_guild) member_a; l' = fst s' in
       added (whitelist l') = added (whitelist empty_log)
         + (if 100 \<le> points member_a \<and> WHITELIST_ROLE_ID \<notin> {MOOLALIST_ROLE_ID}
               \<and> WL_WINNER_ROLE_ID \<notin> {MOOLALIST_ROLE_ID} then 1 else 0)
     \<and> existing (whitelist l') = existing (whitelist empty_log)
         + (if 100 \<le> points member_a \<and> (WHITELIST_ROLE_ID \<in> {MOOLALIST_ROLE_ID}
               \<or> WL_WINNER_ROLE_ID \<in> {MOOLALIST_ROLE_ID}) then 1 else 0)
     \<and> added (moolalist l') = added (moolalist empty_log)
         + (if 100 \<le> points member_a \<and> MOOLALIST_ROLE_ID \<notin> {MOOLALIST_ROLE_ID}
               \<and> ML_WINNER_ROLE_ID \<notin> {MOOLALIST_ROLE_ID} then 1 else 0)
     \<and> existing (moolalist l') = existing (moolalist empty_log)
         + (if 100 \<le> points member_a \<and> (MOOLALIST_ROLE_ID \<in> {MOOLALIST_ROLE_ID}
               \<or> ML_WINNER_ROLE_ID \<in> {MOOLALIST_ROLE_ID}) then 1 else 0))"
    by (simp add: Let_def)
  with h have "let s' = player_step False 100 100 500 (empty_log, holder_guild) member_a; l' = fst s' in
       added (whitelist l') = added (whitelist empty_log)
         + (if 100 \<le> points member_a \<and> WHITELIST_ROLE_ID \<notin> {MOOLALIST_ROLE_ID}
               \<and> WL_WINNER_ROLE_ID \<notin> {MOOLALIST_ROLE_ID} then 1 else 0)
     \<and> existing (whitelist l') = existing (whitelist empty_log)
         + (if 100 \<le> points member_a \<and> (WHITELIST_ROLE_ID \<in> {MOOLALIST_ROLE_ID}
               \<or> WL_WINNER_ROLE_ID \<in> {MOOLALIST_ROLE_ID}) then 1 else 0)
     \<and> added (moolalist l') = added (moolalist empty_log)
         + (if 100 \<le> points member_a \<and> MOOLALIST_ROLE_ID \<notin> {MOOLALIST_ROLE_ID}
               \<and> ML_WINNER_ROLE_ID \<notin> {MOOLALIST_ROLE_ID} then 1 else 0)
     \<and> existing (moolalist l') = existing (moolalist empty_log)
         + (if 100 \<le> points member_a \<and> (MOOLALIST_ROLE_ID \<in> {MOOLALIST_ROLE_ID}
               \<or> ML_WINNER_ROLE_ID \<in> {MOOLALIST_ROLE_ID}) then 1 else 0)"
    by (rule mp [rotated])
  then show ?thesis
    using h by (simp add: Let_def empty_log_def member_a_def role_ids)
qed

section \<open>The winning team\<close>

lemma getTeamPoints_read:
  "getTeamPoints st =
     \<lparr>bullas = (if rejects st (Rpc_sum_points ''bullas'') then 0
                else sum_list (map points (filter (\<lambda>u. team u = Some ''bullas'') (users st)))),
      beras = (if rejects st (Rpc_sum_points ''beras'') then 0
               else sum_list (map points (filter (\<lambda>u. team u = Some ''beras'') (users st))))\<rparr>"
  by (simp add: getTeamPoints_def sum_points_for_team_def)

lemma targetTeam_cases:
  "targetTeam teamType teamPoints =
     (if bullas teamPoints > beras teamPoints
      then (if teamType = ''winning'' then ''bullas'' else ''beras'')
      else (if teamType = ''winning'' then ''beras'' else ''bullas''))"
  by (simp add: targetTeam_def winningTeam_def)

lemma updateRoles_target:
  "updateRoles g st teamType wl ml fm sim =
     (if six_roles \<subseteq> roles_cache g \<and> \<not> rejects st (Select_team (targetTeam teamType (getTeamPoints st)))
      then foldl (player_step sim wl ml fm) (empty_log, g)
             (filter (\<lambda>u. team u = Some (targetTeam teamType (getTeamPoints st))) (users st))
      else (empty_log, g))"
  by (simp add: updateRoles_def select_team_def six_roles_def)

text \<open>
  C10, as stated, fails when a sum call fails: getTeamPoints reads the missing data as 0.
  In a store where the bullas have 100 points and the beras 300, and the call for the
  beras sum fails, the bullas sum is not greater than the beras sum, and yet bullas is
  the winning team for updateRoles and for the snapshot handler.
\<close>

theorem winning_team_counterexample:
  "sum_list (map points (filter (\<lambda>u. team u = Some ''bullas'') (users half_answering_store))) = 100
   \<and> sum_list (map points (filter (\<lambda>u. team u = Some ''beras'') (users half_answering_store))) = 300
   \<and> winningTeam (getTeamPoints half_answering_store) = ''bullas''
   \<and> snapshot_teams half_answering_store = (''bullas'', ''beras'')
   \<and> targetTeam ''winning'' (getTeamPoints half_answering_store) = ''bullas''"
  by code_simp

text \<open>
  C10, amended. The two totals getTeamPoints returns are the sum of the points of the
  team's rows, or 0 for a team whose sum call fails. In updateRoles and in the snapshot
  handler the winning team is bullas exactly when the bullas total is strictly greater
  than the beras total, and beras otherwise; the losing team is the other one. An
  updateRoles run processes the rows of the winning team for the team type \<open>winning\<close>
  and those of the other team for any other team type. When the two totals are equal,
  beras is the winning team and bullas the losing one, and a run for \<open>winning\<close>
  processes the rows of team beras.
\<close>

theorem winning_team_tie_break:
  "getTeamPoints st =
     \<lparr>bullas = (if rejects st (Rpc_sum_points ''bullas'') then 0
                else sum_list (map points (filter (\<lambda>u. team u = Some ''bullas'') (users st)))),
      beras = (if rejects st (Rpc_sum_points ''beras'') then 0
               else sum_list (map points (filter (\<lambda>u. team u = Some ''beras'') (users st))))\<rparr>
   \<and> (winningTeam teamPoints = ''bullas'' \<longleftrightarrow> bullas teamPoints > beras teamPoints)
   \<and> (winningTeam teamPoints = ''beras'' \<longleftrightarrow> \<not> bullas teamPoints > beras teamPoints)
   \<and> snapshot_teams st =
       (if bullas (getTeamPoints st) > beras (getTeamPoints st)
        then (''bullas'', ''beras'') else (''beras'', ''bullas''))
   \<and> targetTeam teamType teamPoints =
       (if bullas teamPoints > beras teamPoints
        then (if teamType = ''winning'' then ''bullas'' else ''beras'')
        else (if teamType = ''winning'' then ''beras'' else ''bullas''))
   \<and> updateRoles g st teamType wl ml fm sim =
       (if six_roles \<subseteq> roles_cache g
           \<and> \<not> rejects st (Select_team
                 (if bullas (getTeamPoints st) > beras (getTeamPoints st)
                  then (if teamType = ''winning'' then ''bullas'' else ''beras'')
                  else (if teamType = ''winning'' then ''beras'' else ''bullas'')))
        then foldl (player_step sim wl ml fm) (empty_log, g)
               (filter (\<lambda>u. team u = Some
                   (if bullas (getTeamPoints st) > beras (getTeamPoints st)
                    then (if teamType = ''winning'' then ''bullas'' else ''beras'')
                    else (if teamType = ''winning'' then ''beras'' else ''bullas''))) (users st))
        else (empty_log, g))
   \<and> (bullas teamPoints = beras teamPoints \<longrightarrow>
        winningTeam teamPoints = ''beras'' \<and> losingTeam teamPoints = ''bullas''
        \<and> targetTeam ''winning'' teamPoints = ''beras'')
   \<and> (bullas (getTeamPoints st) = beras (getTeamPoints st) \<longrightarrow>
        snapshot_teams st = (''beras'', ''bullas''))
   \<and> (bullas (getTeamPoints st) = beras (getTeamPoints st) \<and> six_roles \<subseteq> roles_cache g
        \<and> \<not> rejects st (Select_team ''beras'') \<longrightarrow>
        updateRoles g st ''winning'' wl ml fm sim
          = foldl (player_step sim wl ml fm) (empty_log, g)
              (filter (\<lambda>u. team u = Some ''beras'') (users st)))"
proof (intro conjI impI)
  show "getTeamPoints st =
     \<lparr>bullas = (if rejects st (Rpc_sum_points ''bullas'') then 0
                else sum_list (map points (filter (\<lambda>u. team u = Some ''bullas'') (users st)))),
      beras = (if rejects st (Rpc_sum_points ''beras'') then 0
               else sum_list (map points (filter (\<lambda>u. team u = Some ''beras'') (users st))))\<rparr>"
    by (rule getTeamPoints_read)
  show "winningTeam teamPoints = ''bullas'' \<longleftrightarrow> bullas teamPoints > beras teamPoints"
    by (simp add: winningTeam_def)
  show "winningTeam teamPoints = ''beras'' \<longleftrightarrow> \<not> bullas teamPoints > beras teamPoints"
    by (simp add: winningTeam_def)
  show "snapshot_teams st =
       (if bullas (getTeamPoints st) > beras (getTeamPoints st)
        then (''bullas'', ''beras'') else (''beras'', ''bullas''))"
    by (simp add: snapshot_teams_def winningTeam_def losingTeam_def)
  show "targetTeam teamType teamPoints =
       (if bullas teamPoints > beras teamPoints
        then (if teamType = ''winning'' then ''bullas'' else ''beras'')
        else (if teamType = ''winning'' then ''beras'' else ''bullas''))"
    by (rule targetTeam_cases)
  show "updateRoles g st teamType wl ml fm sim =
       (if six_roles \<subseteq> roles_cache g
           \<and> \<not> rejects st (Select_team
                 (if bullas (getTeamPoints st) > beras (getTeamPoints st)
                  then (if teamType = ''winning'' then ''bullas'' else ''beras'')
                  else (if teamType = ''winning'' then ''beras'' else ''bullas'')))
        then foldl (player_step sim wl ml fm) (empty_log, g)
               (filter (\<lambda>u. team u = Some
                   (if bullas (getTeamPoints st) > beras (getTeamPoints st)
                    then (if teamType = ''winning'' then ''bullas'' else ''beras'')
                    else (if teamType = ''winning'' then ''beras'' else ''bullas''))) (users st))
        else (empty_log, g))"
    unfolding targetTeam_cases [symmetric] by (rule updateRoles_target)
next
  assume "bullas teamPoints = beras teamPoints"
  then show "winningTeam teamPoints = ''beras''" "losingTeam teamPoints = ''bullas''"
    "targetTeam ''winning'' teamPoints = ''beras''"
    by (simp_all add: winningTeam_def losingTeam_def targetTeam_def)
next
  assume "bullas (getTeamPoints st) = beras (getTeamPoints st)"
  then show "snapshot_teams st = (''beras'', ''bullas'')"
    by (simp add: snapshot_teams_def winningTeam_def losingTeam_def)
next
  assume a: "bullas (getTeamPoints st) = beras (getTeamPoints st) \<and> six_roles \<subseteq> roles_cache g
        \<and> \<not> rejects st (Select_team ''beras'')"
  then have "targetTeam ''winning'' (getTeamPoints st) = ''beras''"
    by (simp add: targetTeam_cases)
  with a show "updateRoles g st ''winning'' wl ml fm sim
          = foldl (player_step sim wl ml fm) (empty_log, g)
              (filter (\<lambda>u. team u = Some ''beras'') (users st))"
    by (simp add: updateRoles_target)
qed

theorem winning_team_tie_break_witness:
  "bullas (getTeamPoints tied_store) = beras (getTeamPoints tied_store)
   \<and> six_roles \<subseteq> roles_cache scenario_guild
   \<and> \<not> rejects tied_store (Select_team ''beras'')
   \<and> winningTeam (getTeamPoints tied_store) = ''beras''
   \<and> losingTeam (getTeamPoints tied_store) = ''bullas''
   \<and> targetTeam ''winning'' (getTeamPoints tied_store) = ''beras''
   \<and> snapshot_teams tied_store = (''beras'', ''bullas'')
   \<and> updateRoles scenario_guild tied_store ''winning'' 100 200 500 True
       = foldl (player_step True 100 200 500) (empty_log, scenario_guild)
           [\<lparr>discord_id = ''b'', address = None, points = 100, team = Some ''beras''\<rparr>]"
proof -
  have h1: "bullas (getTeamPoints tied_store) = beras (getTeamPoints tied_store)"
    by (simp add: getTeamPoints_def sum_points_for_team_def tied_store_def accepting_def)
  have h2: "six_roles \<subseteq> roles_cache scenario_guild"
    by (simp add: scenario_guild_def)
  have h3: "\<not> rejects tied_store (Select_team ''beras'')"
    by (simp add: tied_store_def accepting_def)
  note T = winning_team_tie_break [of tied_store "getTeamPoints tied_store" "''winning''"
      scenario_guild 100 200 500 True]
  from T h1 have tie: "winningTeam (getTeamPoints tied_store) = ''beras''
      \<and> losingTeam (getTeamPoints tied_store) = ''bullas''
      \<and> targetTeam ''winning'' (getTeamPoints tied_store) = ''beras''"
    by (elim conjE) (rule mp)
  from T h1 have snap: "snapshot_teams tied_store = (''beras'', ''bullas'')"
    by (elim conjE) (erule (1) mp)
  from T h1 h2 h3 have run: "updateRoles scenario_guild tied_store ''winning'' 100 200 500 True
       = foldl (player_step True 100 200 500) (empty_log, scenario_guild)
           (filter (\<lambda>u. team u = Some ''beras'') (users tied_store))"
    by (elim conjE) (erule mp, intro conjI)
  have rows: "filter (\<lambda>u. team u = Some ''beras'') (users tied_store)
      = [\<lparr>discord_id = ''b'', address = None, points = 100, team = Some ''beras''\<rparr>]"
    by (simp add: tied_store_def)
  from h1 h2 h3 tie snap run [unfolded rows] show ?thesis by (intro conjI) simp_all
qed

section \<open>The fine\<close>

lemma single_after_update:
  assumes "single st target = (False, Some userData)"
    and "\<not> rejects st (Update_points target)"
  shows "single (snd (update_points st target v)) target = (False, Some (userData\<lparr>points := v\<rparr>))"
proof -
  have acc: "\<not> rejects st (Select_single target)"
    using assms(1) by (auto simp: single_def split: if_splits)
  have one: "filter (\<lambda>u. discord_id u = target) (users st) = [userData]"
    using assms(1) acc by (auto simp: single_def split: list.splits)
  have "filter (\<lambda>u. discord_id u = target)
          (map (\<lambda>u. if discord_id u = target then u\<lparr>points := v\<rparr> else u) (users st))
        = map (\<lambda>u. u\<lparr>points := v\<rparr>) (filter (\<lambda>u. discord_id u = target) (users st))"
    by (induction "users st" arbitrary: st) (auto simp: filter_map comp_def)
  then show ?thesis
    using acc one assms(2) by (simp add: single_def update_points_def)
qed

text \<open>
  C8, as stated, fails for an amount that is not positive: the handler tests
  \<open>amount <= 0\<close> first and refuses. For a user with 30 points and the amount -5 the
  points are not less than the amount, so the claim has the balance set to 35; the
  handler answers that the amount must be positive and the balance stays 30.
\<close>

theorem fine_floor_counterexample:
  "\<not> ((30::int) < - 5)
   \<and> fst (fine fine_store admin_member (Some ''u'') (Some (- 5)))
       = Message ''Please provide a valid user and a positive amount.''
   \<and> map points (users (snd (fine fine_store admin_member (Some ''u'') (Some (- 5))))) = [30]
   \<and> map points (users (snd (fine fine_store admin_member (Some ''u'') (Some (- 5))))) \<noteq> [30 - (- 5)]"
  by code_simp

text \<open>
  C8, amended. For an administrator and a user the store finds: whenever the points are
  less than the amount, the reply is a message and the store is unchanged; for a positive
  amount that message says the user has not enough points. An amount that is not
  positive is refused as invalid input, with no update. For a positive amount that the
  points cover, and when the store accepts the update, the row's points are set to the
  points minus the amount.
\<close>

theorem fine_floor:
  assumes "hasAdminRole member"
    and "single st target = (False, Some userData)"
  shows "(points userData < amount \<longrightarrow>
            snd (fine st member (Some target) (Some amount)) = st
            \<and> (\<exists>text. fst (fine st member (Some target) (Some amount)) = Message text))
       \<and> (0 < amount \<and> points userData < amount \<longrightarrow>
            fine st member (Some target) (Some amount)
              = (Message ''The user doesn't have enough points for this fine.'', st))
       \<and> (amount \<le> 0 \<longrightarrow>
            fine st member (Some target) (Some amount)
              = (Message ''Please provide a valid user and a positive amount.'', st))
       \<and> (0 < amount \<and> \<not> points userData < amount \<and> \<not> rejects st (Update_points target) \<longrightarrow>
            fst (fine st member (Some target) (Some amount))
              = Message (''Successfully fined <@'' @ target @ ''> '' @ number_to_string amount
                   @ '' points. Their new balance is ''
                   @ number_to_string (points userData - amount) @ '' points.'')
            \<and> users (snd (fine st member (Some target) (Some amount)))
              = map (\<lambda>u. if discord_id u = target then u\<lparr>points := points userData - amount\<rparr> else u)
                  (users st)
            \<and> single (snd (fine st member (Some target) (Some amount))) target
              = (False, Some (userData\<lparr>points := points userData - amount\<rparr>)))"
proof -
  have upd: "\<not> rejects st (Update_points target) \<Longrightarrow>
      single (snd (update_points st target v)) target = (False, Some (userData\<lparr>points := v\<rparr>))" for v
    using assms(2) by (rule single_after_update)
  show ?thesis
    using assms upd [of "points userData - amount"]
    by (auto simp: fine_def Let_def update_points_def)
qed

theorem fine_floor_witness:
  "hasAdminRole admin_member
   \<and> single fine_store ''u'' = (False, Some \<lparr>discord_id = ''u'', address = None, points = 30, team = None\<rparr>)
   \<and> fine fine_store admin_member (Some ''u'') (Some 50)
       = (Message ''The user doesn't have enough points for this fine.'', fine_store)
   \<and> users (snd (fine fine_store admin_member (Some ''u'') (Some 20)))
       = [\<lparr>discord_id = ''u'', address = None, points = 10, team = None\<rparr>]"
proof -
  have h1: "hasAdminRole admin_member"
    by (simp add: hasAdminRole_def admin_member_def ADMIN_ROLE_IDS_def)
  have h2: "single fine_store ''u''
      = (False, Some \<lparr>discord_id = ''u'', address = None, points = 30, team = None\<rparr>)"
    by (simp add: single_def fine_store_def accepting_def)
  have h3: "\<not> rejects fine_store (Update_points ''u'')"
    by (simp add: fine_store_def accepting_def)
  from fine_floor [OF h1 h2, of 50]
  have a: "fine fine_store admin_member (Some ''u'') (Some 50)
       = (Message ''The user doesn't have enough points for this fine.'', fine_store)"
    by simp
  from fine_floor [OF h1 h2, of 20] h3
  have b: "users (snd (fine fine_store admin_member (Some ''u'') (Some 20)))
      = map (\<lambda>u. if discord_id u = ''u'' then u\<lparr>points := 30 - 20\<rparr> else u) (users fine_store)"
    by simp
  from h1 h2 a b show ?thesis by (simp add: fine_store_def)
qed

section \<open>The transfer\<close>

text \<open>
  C9. The test of \<open>/transfer\<close> refuses a missing user and the amount 0, and lets a
  negative amount through, unlike the test of \<open>/fine\<close>. With the amount -5 the sender's
  10 points are not below the amount, both rows are written, and the points move from the
  receiver to the sender.
\<close>

theorem transfer_negative_amount:
  "fst (transfer transfer_store admin_member ''s'' (Some ''r'') (Some (- 5)))
     = Message ''Successfully transferred -5 points to <@r>.''
   \<and> users (snd (transfer transfer_store admin_member ''s'' (Some ''r'') (Some (- 5))))
     = [\<lparr>discord_id = ''s'', address = None, points = 15, team = None\<rparr>,
        \<lparr>discord_id = ''r'', address = None, points = 15, team = None\<rparr>]"
  by code_simp

section \<open>The CSV text\<close>

lemma digit_text_table: "\<forall>d\<in>set [0..<10]. [''0123456789'' ! d] = digit_text d"
  by code_simp

lemma digit_text_nth: "n < 10 \<Longrightarrow> [''0123456789'' ! n] = digit_text n"
  using digit_text_table by simp

lemma digits_decimal: "digits n = decimal_nat n"
proof (induction n rule: digits.induct)
  case (1 n)
  show ?case
  proof (cases "n < 10")
    case True
    then show ?thesis
      by (subst digits.simps, subst decimal_nat.simps) (simp add: digit_text_nth del: digits.simps)
  next
    case False
    then have "n mod 10 < 10" by simp
    with False "1.IH" show ?thesis
      by (subst digits.simps, subst decimal_nat.simps) (simp add: digit_text_nth del: digits.simps)
  qed
qed

lemma number_decimal: "number_to_string i = decimal_text i"
  by (simp add: number_to_string_def decimal_text_def digits_decimal del: digits.simps)

lemma join_concat: "join sep (x # xs) = x @ concat (map (\<lambda>y. sep @ y) xs)"
  by (induction xs arbitrary: x) simp_all

lemma csv_row_format:
  "csv_row includeDiscordId membersMap = format_line includeDiscordId \<circ> resolve_flags membersMap"
  by (rule ext)
     (simp add: csv_row_def format_line_def resolve_flags_def Let_def yes_no_def has_either_def
        nullable_to_string_def number_decimal split: option.splits)

lemma createCSV_refines:
  "createCSV data includeDiscordId g
     = format_csv (map (resolve_flags (fetch_batches g
           (filter (\<lambda>member_id. member_id \<noteq> []) (map discord_id data)) 0 Map.empty)) data)
         includeDiscordId"
proof (cases data)
  case Nil
  then show ?thesis by (simp add: createCSV_def format_csv_def)
next
  case (Cons u us)
  then show ?thesis
    by (simp add: createCSV_def format_csv_def Let_def csv_row_format join_concat comp_def
        del: join.simps)
qed

lemma resolve_flags_cong:
  "M1 (discord_id u) = M2 (discord_id u) \<Longrightarrow> resolve_flags M1 u = resolve_flags M2 u"
  by (simp add: resolve_flags_def)

lemma flag_rows_without_id:
  "createCSV flag_rows False flag_guild
   = ''address,points,wl_role,ml_role,free_mint_role\<newline>0x1,1250,Y,N,Y\<newline>null,-3,N,Y,N''"
  by code_simp

lemma flag_rows_with_id:
  "createCSV flag_rows True flag_guild
   = ''discord_id,address,points,wl_role,ml_role,free_mint_role\<newline>7,0x1,1250,Y,N,Y\<newline>8,null,-3,N,Y,N''"
  by code_simp

lemma store_batch:
  "foldl (\<lambda>m member_id. case members g member_id of None \<Rightarrow> m | Some held \<Rightarrow> m(member_id \<mapsto> held)) M batch x
   = (if x \<in> set batch then (case members g x of None \<Rightarrow> M x | Some held \<Rightarrow> Some held) else M x)"
  by (induction batch arbitrary: M) (auto split: option.splits)

lemma fetch_batches_accepted:
  assumes "\<forall>batch. \<not> batch_rejects g batch"
  shows "fetch_batches g memberIds i M x
   = (if x \<in> set (drop i memberIds) then (case members g x of None \<Rightarrow> M x | Some held \<Rightarrow> Some held)
      else M x)"
  using assms
proof (induction g memberIds i M rule: fetch_batches.induct)
  case (1 g memberIds i membersMap)
  note accepted = "1.prems"
  show ?case
  proof (cases "i < length memberIds")
    case False
    then show ?thesis by (subst fetch_batches.simps) simp
  next
    case True
    have "set (take 50 ys) \<union> set (drop 50 ys) = set ys" for ys :: "string list"
      by (metis append_take_drop_id set_append)
    from this [of "drop i memberIds"]
    have split: "set (drop i memberIds) = set (take 50 (drop i memberIds)) \<union> set (drop (i + 50) memberIds)"
      by (simp add: add.commute)
    let ?M' = "foldl (\<lambda>m member_id. case members g member_id of None \<Rightarrow> m
                 | Some held \<Rightarrow> m(member_id \<mapsto> held)) membersMap (take 50 (drop i memberIds))"
    have unfold: "fetch_batches g memberIds i membersMap = fetch_batches g memberIds (i + 50) ?M'"
      using True accepted by (subst fetch_batches.simps) (simp add: Let_def del: fetch_batches.simps)
    have IH: "fetch_batches g memberIds (i + 50) ?M' x
        = (if x \<in> set (drop (i + 50) memberIds)
           then (case members g x of None \<Rightarrow> ?M' x | Some held \<Rightarrow> Some held) else ?M' x)"
      using "1.IH" [OF True refl] accepted by (simp del: fetch_batches.simps)
    show ?thesis
      unfolding unfold IH store_batch split
      by (auto split: option.splits)
  qed
qed

lemma single_batch:
  "fetch_batches g [m] 0 Map.empty
   = (if batch_rejects g [m] then Map.empty
      else (case members g m of None \<Rightarrow> Map.empty | Some held \<Rightarrow> [m \<mapsto> held]))"
  by (simp add: fetch_batches.simps)

text \<open>
  C7. The text createCSV returns is the format of the specification applied to the rows
  with their resolved role flags: the fixed header for the value of includeId, a
  newline, and one line for each row in the order of the input, the lines separated by
  newlines, each the values joined by commas with Y for a flag that is set and N for one
  that is not, and nothing quoted or escaped. The flags are read from the members the
  batched fetch stored; when no batch is rejected they are the flags of the guild's
  members. For the single row with id 1, address 0xABC and 10 points, no list role held
  and includeId true, the text is the header line, a newline and \<open>1,0xABC,10,N,N,N\<close>.
  For two rows whose members hold list roles the text has \<open>0x1,1250,Y,N,Y\<close> and then
  \<open>null,-3,N,Y,N\<close>, with the ids in front when includeId is true.
\<close>

theorem createCSV_format:
  "createCSV data includeDiscordId g
     = format_csv (map (resolve_flags (fetch_batches g
           (filter (\<lambda>member_id. member_id \<noteq> []) (map discord_id data)) 0 Map.empty)) data)
         includeDiscordId
   \<and> ((\<forall>batch. \<not> batch_rejects g batch) \<longrightarrow>
        createCSV data includeDiscordId g
          = format_csv (map (resolve_flags (\<lambda>m. if m = [] then None else members g m)) data)
              includeDiscordId)
   \<and> ((\<forall>held. members g ''1'' = Some held \<longrightarrow> held \<inter> six_roles = {}) \<longrightarrow>
        createCSV [\<lparr>discord_id = ''1'', address = Some ''0xABC'', points = 10, team = t\<rparr>] True g
          = ''discord_id,address,points,wl_role,ml_role,free_mint_role\<newline>1,0xABC,10,N,N,N'')
   \<and> createCSV flag_rows False flag_guild
       = ''address,points,wl_role,ml_role,free_mint_role\<newline>0x1,1250,Y,N,Y\<newline>null,-3,N,Y,N''
   \<and> createCSV flag_rows True flag_guild
       = ''discord_id,address,points,wl_role,ml_role,free_mint_role\<newline>7,0x1,1250,Y,N,Y\<newline>8,null,-3,N,Y,N''"
proof (intro conjI impI)
  show "createCSV flag_rows False flag_guild
       = ''address,points,wl_role,ml_role,free_mint_role\<newline>0x1,1250,Y,N,Y\<newline>null,-3,N,Y,N''"
    by (rule flag_rows_without_id)
  show "createCSV flag_rows True flag_guild
       = ''discord_id,address,points,wl_role,ml_role,free_mint_role\<newline>7,0x1,1250,Y,N,Y\<newline>8,null,-3,N,Y,N''"
    by (rule flag_rows_with_id)
next
  show "createCSV data includeDiscordId g
     = format_csv (map (resolve_flags (fetch_batches g
           (filter (\<lambda>member_id. member_id \<noteq> []) (map discord_id data)) 0 Map.empty)) data)
         includeDiscordId"
    by (rule createCSV_refines)
next
  assume accepted: "\<forall>batch. \<not> batch_rejects g batch"
  let ?ids = "filter (\<lambda>member_id. member_id \<noteq> []) (map discord_id data)"
  have "resolve_flags (fetch_batches g ?ids 0 Map.empty) u
      = resolve_flags (\<lambda>m. if m = [] then None else members g m) u" if "u \<in> set data" for u
    using that
    by (intro resolve_flags_cong)
       (auto simp: fetch_batches_accepted [OF accepted] split: option.splits)
  then have same: "map (resolve_flags (fetch_batches g ?ids 0 Map.empty)) data
      = map (resolve_flags (\<lambda>m. if m = [] then None else members g m)) data"
    by simp
  show "createCSV data includeDiscordId g
          = format_csv (map (resolve_flags (\<lambda>m. if m = [] then None else members g m)) data)
              includeDiscordId"
    unfolding createCSV_refines same ..
next
  assume none: "\<forall>held. members g ''1'' = Some held \<longrightarrow> held \<inter> six_roles = {}"
  have flags: "\<not> has_either (fetch_batches g [''1''] 0 Map.empty) ''1'' b w"
    if "b \<in> six_roles" "w \<in> six_roles" for b w
    using none that by (auto simp: single_batch has_either_def split: option.splits)
  have "\<not> has_either (fetch_batches g [''1''] 0 Map.empty) ''1'' WHITELIST_ROLE_ID WL_WINNER_ROLE_ID"
    "\<not> has_either (fetch_batches g [''1''] 0 Map.empty) ''1'' MOOLALIST_ROLE_ID ML_WINNER_ROLE_ID"
    "\<not> has_either (fetch_batches g [''1''] 0 Map.empty) ''1'' FREE_MINT_ROLE_ID FREE_MINT_WINNER_ROLE_ID"
    by (rule flags; simp add: six_roles_def)+
  then show "createCSV [\<lparr>discord_id = ''1'', address = Some ''0xABC'', points = 10, team = t\<rparr>] True g
          = ''discord_id,address,points,wl_role,ml_role,free_mint_role\<newline>1,0xABC,10,N,N,N''"
    by (simp add: createCSV_def csv_row_def Let_def yes_no_def nullable_to_string_def
        number_to_string_def)
qed

theorem createCSV_format_witness:
  "(\<forall>batch. \<not> batch_rejects csv_guild batch)
   \<and> members csv_guild ''1'' = Some {''1230207362145452103''}
   \<and> {''1230207362145452103''} \<inter> six_roles = {}
   \<and> createCSV [csv_user] True csv_guild
       = ''discord_id,address,points,wl_role,ml_role,free_mint_role\<newline>1,0xABC,10,N,N,N''
   \<and> createCSV [csv_user] True csv_guild
       = format_csv [\<lparr>row_user = csv_user, wl_role = False, ml_role = False, free_mint_role = False\<rparr>] True
   \<and> createCSV flag_rows False flag_guild
       = ''address,points,wl_role,ml_role,free_mint_role\<newline>0x1,1250,Y,N,Y\<newline>null,-3,N,Y,N''"
proof -
  have h1: "\<forall>batch. \<not> batch_rejects csv_guild batch"
    by (simp add: csv_guild_def scenario_guild_def)
  have h2: "\<forall>held. members csv_guild ''1'' = Some held \<longrightarrow> held \<inter> six_roles = {}"
    by (simp add: csv_guild_def six_roles_def role_ids)
  note at_scenario = createCSV_format [of "[csv_user]" True csv_guild "Some ''bullas''"]
  from at_scenario h1
  have a: "createCSV [csv_user] True csv_guild
      = format_csv (map (resolve_flags (\<lambda>m. if m = [] then None else members csv_guild m)) [csv_user]) True"
    by blast
  have c: "map (resolve_flags (\<lambda>m. if m = [] then None else members csv_guild m)) [csv_user]
      = [\<lparr>row_user = csv_user, wl_role = False, ml_role = False, free_mint_role = False\<rparr>]"
    by (simp add: resolve_flags_def csv_guild_def csv_user_def role_ids)
  from at_scenario h2
  have "createCSV [\<lparr>discord_id = ''1'', address = Some ''0xABC'', points = 10, team = Some ''bullas''\<rparr>]
          True csv_guild
      = ''discord_id,address,points,wl_role,ml_role,free_mint_role\<newline>1,0xABC,10,N,N,N''"
    by blast
  then have b: "createCSV [csv_user] True csv_guild
      = ''discord_id,address,points,wl_role,ml_role,free_mint_role\<newline>1,0xABC,10,N,N,N''"
    by (simp only: csv_user_def)
  from a c have a': "createCSV [csv_user] True csv_guild
      = format_csv [\<lparr>row_user = csv_user, wl_role = False, ml_role = False, free_mint_role = False\<rparr>] True"
    by (simp only:)
  have h3: "members csv_guild ''1'' = Some {''1230207362145452103''}"
    and h4: "{''1230207362145452103''} \<inter> six_roles = {}"
    by (simp_all add: csv_guild_def six_roles_def role_ids)
  from at_scenario
  have d: "createCSV flag_rows False flag_guild
      = ''address,points,wl_role,ml_role,free_mint_role\<newline>0x1,1250,Y,N,Y\<newline>null,-3,N,Y,N''"
    by (elim conjE)
  from h1 h3 h4 b a' d show ?thesis by (intro conjI)
qed

section \<open>Ranking, pages and the caller's rank\<close>

lemma select_ranked_sorted:
  "sorted_wrt (\<lambda>a b. points a \<ge> points b) (select_ranked P rows)"
proof -
  have "sorted (map (\<lambda>u. - points u) (select_ranked P rows))"
    unfolding select_ranked_def by (rule sorted_sort_key)
  then show ?thesis by (simp add: sorted_map)
qed

lemma select_ranked_set: "set (select_ranked P rows) = {u \<in> set rows. P u}"
  by (simp add: select_ranked_def)

lemma select_ranked_prefilter:
  assumes "\<And>u. P u \<Longrightarrow> Q u"
  shows "select_ranked P (filter Q rows) = select_ranked P rows"
proof -
  have "filter P (filter Q rows) = filter P rows"
    using assms by (induction rows) auto
  then show ?thesis by (simp add: select_ranked_def)
qed

lemma totalPages_div: "totalPages_of n 10 = (int n + 9) div 10"
proof -
  have "totalPages_of n 10 = \<lceil>real_of_int (int n) / real_of_int 10\<rceil>"
    by (simp add: totalPages_of_def)
  also have "\<dots> = - (- int n div 10)"
    by (rule ceiling_divide_eq_div)
  also have "\<dots> = (int n + 9) div 10"
    by presburger
  finally show ?thesis .
qed

lemma int_pages: "[1..int n] = map (\<lambda>k. int k + 1) [0..<n]"
proof (induction n)
  case 0
  show ?case by simp
next
  case (Suc n)
  have "[1..int (Suc n)] = [1..int n] @ [int n + 1]"
    using upto_rec2 [of 1 "int (Suc n)"] by (simp add: add.commute)
  then show ?case using Suc by simp
qed

lemma concat_slices:
  "concat (map (\<lambda>k. take m (drop (k * m) xs)) [0..<n]) = take (n * m) xs"
proof (induction n)
  case 0
  show ?case by simp
next
  case (Suc n)
  have "take (n * m) xs @ take m (drop (n * m) xs) = take (n * m + m) xs"
    by (simp add: take_add)
  then show ?case using Suc by (simp add: add.commute)
qed

lemma concat_pages:
  assumes "int (length xs) \<le> 10 * int n"
  shows "concat (map (\<lambda>page. take 10 (drop (nat ((page - 1) * 10)) xs)) [1..int n]) = xs"
proof -
  have "concat (map (\<lambda>page. take 10 (drop (nat ((page - 1) * 10)) xs)) [1..int n])
      = concat (map (\<lambda>k. take 10 (drop (k * 10) xs)) [0..<n])"
    by (simp add: int_pages comp_def nat_mult_distrib)
  also have "\<dots> = take (n * 10) xs" by (rule concat_slices)
  also have "\<dots> = xs" using assms by simp
  finally show ?thesis .
qed

lemma findIndex_ge: "findIndex P xs \<ge> - 1"
  by (induction xs) (auto simp: Let_def)

lemma findIndex_none: "findIndex P xs = - 1 \<longleftrightarrow> (\<forall>x\<in>set xs. \<not> P x)"
proof (induction xs)
  case Nil
  show ?case by simp
next
  case (Cons x xs)
  have "findIndex P xs \<ge> - 1" by (rule findIndex_ge)
  then show ?case using Cons by (auto simp: Let_def)
qed

lemma findIndex_found:
  assumes "findIndex P xs \<noteq> - 1"
  shows "0 \<le> findIndex P xs \<and> findIndex P xs < int (length xs)
       \<and> P (xs ! nat (findIndex P xs))
       \<and> (\<forall>j < nat (findIndex P xs). \<not> P (xs ! j))"
  using assms
proof (induction xs)
  case Nil
  then show ?case by simp
next
  case (Cons x xs)
  show ?case
  proof (cases "P x")
    case True
    then show ?thesis by simp
  next
    case False
    with Cons.prems have ne: "findIndex P xs \<noteq> - 1"
      by (auto simp: Let_def split: if_splits)
    note IH = Cons.IH [OF ne]
    have eq: "findIndex P (x # xs) = findIndex P xs + 1"
      using False ne by (simp add: Let_def)
    have nat_eq: "nat (findIndex P xs + 1) = Suc (nat (findIndex P xs))"
      using IH by (simp add: nat_add_distrib)
    show ?thesis
      unfolding eq nat_eq using IH False
      by (auto simp: nth_Cons split: nat.splits)
  qed
qed

lemma those_map_Some: "those xs = Some ys \<Longrightarrow> xs = map Some ys"
  by (induction xs arbitrary: ys) (auto split: option.splits)

lemma those_total: "(\<forall>x\<in>set xs. x \<noteq> None) \<Longrightarrow> \<exists>ys. those xs = Some ys"
  by (induction xs) (auto split: option.splits)

lemma entries_of_pairs:
  assumes "map (\<lambda>(index, entry). case usernames (discord_id entry) of None \<Rightarrow> None
             | Some name \<Rightarrow> Some \<lparr>position = skip + int index + 1, player = entry, username = name\<rparr>) zs
           = map Some es"
  shows "map player es = map snd zs \<and> map position es = map (\<lambda>z. skip + int (fst z) + 1) zs"
  using assms
proof (induction zs arbitrary: es)
  case Nil
  then show ?case by simp
next
  case (Cons z zs)
  then obtain e es' where es: "es = e # es'" by (cases es) auto
  with Cons.prems show ?case
    using Cons.IH [of es'] by (cases z) (auto split: option.splits)
qed

lemma leaderboardEntries_Some:
  assumes "leaderboardEntries usernames skip leaderboardData = Some es"
  shows "map player es = leaderboardData"
    and "map position es = map (\<lambda>i. skip + int i + 1) [0..<length es]"
    and "length es = length leaderboardData"
proof -
  let ?zs = "zip [0..<length leaderboardData] leaderboardData"
  from assms have "map (\<lambda>(index, entry). case usernames (discord_id entry) of None \<Rightarrow> None
             | Some name \<Rightarrow> Some \<lparr>position = skip + int index + 1, player = entry, username = name\<rparr>) ?zs
           = map Some es"
    unfolding leaderboardEntries_def by (rule those_map_Some)
  from entries_of_pairs [OF this]
  have p: "map player es = map snd ?zs" and q: "map position es = map (\<lambda>z. skip + int (fst z) + 1) ?zs"
    by simp_all
  from p show a: "map player es = leaderboardData" by simp
  then show len: "length es = length leaderboardData" by (metis length_map)
  have fsts: "map fst ?zs = [0..<length leaderboardData]"
    by simp
  have "map (\<lambda>z. skip + int (fst z) + 1) ?zs = map ((\<lambda>i. skip + int i + 1) \<circ> fst) ?zs"
    by (simp only: comp_def)
  also have "\<dots> = map (\<lambda>i. skip + int i + 1) (map fst ?zs)"
    by (simp only: map_map)
  also have "\<dots> = map (\<lambda>i. skip + int i + 1) [0..<length leaderboardData]"
    by (simp only: fsts)
  finally show "map position es = map (\<lambda>i. skip + int i + 1) [0..<length es]"
    using q len by simp
qed

lemma leaderboardEntries_total:
  assumes "\<forall>u\<in>set leaderboardData. usernames (discord_id u) \<noteq> None"
  shows "\<exists>es. leaderboardEntries usernames skip leaderboardData = Some es"
  unfolding leaderboardEntries_def
proof (rule those_total, rule ballI)
  fix x
  assume "x \<in> set (map (\<lambda>(index, entry). case usernames (discord_id entry) of None \<Rightarrow> None
             | Some name \<Rightarrow> Some \<lparr>position = skip + int index + 1, player = entry, username = name\<rparr>)
            (zip [0..<length leaderboardData] leaderboardData))"
  then obtain i u where "u \<in> set leaderboardData"
    and x: "x = (case usernames (discord_id u) of None \<Rightarrow> None
             | Some name \<Rightarrow> Some \<lparr>position = skip + int i + 1, player = u, username = name\<rparr>)"
    by (auto dest: set_zip_rightD)
  with assms show "x \<noteq> None" by (auto split: option.splits)
qed

lemma handler_Embed:
  assumes "leaderboard_handler ranked_of usernames st caller teamOption page_option = Embed b"
  defines "page \<equiv> page_or_1 page_option"
  defines "ranked \<equiv> ranked_of teamOption (users st)"
  shows "\<not> rejects st (Select_page ((page - 1) * 10) ((page - 1) * 10 + 10 - 1))" and "1 \<le> page"
    and "take 10 (drop (nat ((page - 1) * 10)) ranked) \<noteq> []"
    and "leaderboardEntries usernames ((page - 1) * 10) (take 10 (drop (nat ((page - 1) * 10)) ranked))
          = Some (entries b)"
    and "your_rank b = own_rank st ranked caller"
    and "footer_page b = page"
    and "footer_total b = totalPages_of (length ranked) 10"
    and "prev_disabled b = (page \<le> 1)"
    and "next_disabled b = (page \<ge> totalPages_of (length ranked) 10)"
  using assms(1) unfolding page_def ranked_def
  by (auto simp: leaderboard_handler_def page_query_def range_rows_def Let_def
      split: option.splits if_splits)

lemma handler_serves:
  assumes "\<not> rejects st (Select_page ((page - 1) * 10) ((page - 1) * 10 + 10 - 1))"
    and "1 \<le> page" and "(page - 1) * 10 < int (length (ranked_of teamOption (users st)))"
    and "\<forall>u\<in>set (ranked_of teamOption (users st)). usernames (discord_id u) \<noteq> None"
  shows "\<exists>b. leaderboard_handler ranked_of usernames st caller teamOption (Some page) = Embed b"
proof -
  let ?ranked = "ranked_of teamOption (users st)"
  let ?data = "take 10 (drop (nat ((page - 1) * 10)) ?ranked)"
  have ne: "?data \<noteq> []" using assms(2,3) by simp
  have "\<forall>u\<in>set ?data. usernames (discord_id u) \<noteq> None"
    using assms(4) by (meson in_set_dropD in_set_takeD)
  then obtain es where "leaderboardEntries usernames ((page - 1) * 10) ?data = Some es"
    using leaderboardEntries_total by blast
  then show ?thesis
    using assms(1,2) ne
    by (simp add: leaderboard_handler_def page_query_def range_rows_def Let_def page_or_1_def)
qed

lemma button_Embed:
  assumes "leaderboard_button_handler ranked_of usernames st caller command_user action teamOption currentPage
           = Some (Embed b)"
  defines "ranked \<equiv> ranked_of teamOption (users st)"
  shows "your_rank b = own_rank st ranked caller"
    and "footer_total b = totalPages_of (length ranked) 10"
    and "prev_disabled b = (footer_page b \<le> 1)"
    and "next_disabled b = (footer_page b \<ge> totalPages_of (length ranked) 10)"
    and "footer_page b = (if action = ''next'' then currentPage + 1 else currentPage - 1)"
  using assms(1) unfolding ranked_def
  by (auto simp: leaderboard_button_handler_def page_query_def range_rows_def Let_def
      split: option.splits if_splits)

lemma own_rank_global:
  "(caller \<notin> discord_id ` set ranked \<longrightarrow> own_rank st ranked caller = None)
   \<and> (\<forall>r d. own_rank st ranked caller = Some (r, d) \<longrightarrow>
         1 \<le> r \<and> r \<le> int (length ranked) \<and> d = ranked ! nat (r - 1) \<and> discord_id d = caller
         \<and> (\<forall>j < nat (r - 1). discord_id (ranked ! j) \<noteq> caller))
   \<and> (caller \<in> discord_id ` set ranked \<and> \<not> rejects st Select_rank \<longrightarrow>
         own_rank st ranked caller \<noteq> None)"
proof (cases "findIndex (\<lambda>u. discord_id u = caller) ranked = - 1")
  case True
  then have "caller \<notin> discord_id ` set ranked"
    by (auto simp: findIndex_none)
  moreover have "own_rank st ranked caller = None"
    using True by (simp add: own_rank_def element_at_def)
  ultimately show ?thesis by simp
next
  case False
  note found = findIndex_found [OF False]
  have present: "caller \<in> discord_id ` set ranked"
    using False by (auto simp: findIndex_none)
  show ?thesis
    using found present False
    by (auto simp: own_rank_def element_at_def Let_def split: if_splits)
qed

lemma rank_queries_sorted:
  assumes "ranked_of = rank_query \<or> ranked_of = rank_query_part_000"
  shows "sorted_wrt (\<lambda>a b. points a \<ge> points b) (ranked_of teamOption rows)"
  using assms by (auto simp: rank_query_def rank_query_part_000_def select_ranked_sorted)

lemma rank_queries_exclude:
  assumes "ranked_of = rank_query \<or> ranked_of = rank_query_part_000"
    and "u \<in> set (ranked_of teamOption rows)"
  shows "discord_id u \<notin> set EXCLUDED_USER_IDS"
  using assms by (auto simp: rank_query_def rank_query_part_000_def select_ranked_set)

lemma rank_queries_prefilter:
  assumes "ranked_of = rank_query \<or> ranked_of = rank_query_part_000"
  shows "ranked_of teamOption (filter (\<lambda>u. discord_id u \<notin> set EXCLUDED_USER_IDS) rows)
       = ranked_of teamOption rows"
  using assms
  by (auto simp: rank_query_def rank_query_part_000_def intro!: select_ranked_prefilter)

lemma totalPages_bounds:
  "0 \<le> totalPages_of n 10" "int n \<le> 10 * totalPages_of n 10"
  "1 \<le> page \<Longrightarrow> page \<le> totalPages_of n 10 \<longleftrightarrow> (page - 1) * 10 < int n"
  unfolding totalPages_div by presburger+

lemma all_pages:
  "concat (map (\<lambda>page. take 10 (drop (nat ((page - 1) * 10)) xs)) [1..totalPages_of (length xs) 10]) = xs"
proof -
  let ?n = "nat (totalPages_of (length xs) 10)"
  have n: "int ?n = totalPages_of (length xs) 10"
    using totalPages_bounds(1) [of "length xs"] by simp
  have "int (length xs) \<le> 10 * int ?n"
    using totalPages_bounds(2) [of "length xs"] n by simp
  from concat_pages [OF this] n show ?thesis by simp
qed

lemma board_ranked_length: "length (rank_query ''bullas'' (users board_store)) = 25"
  by code_simp

lemma board_names: "\<forall>u\<in>set rows. known_names (discord_id u) \<noteq> None"
  by (simp add: known_names_def)

lemma board_accepts: "\<not> rejects board_store c"
  by (simp add: board_store_def accepting_def)

lemma three_pages: "totalPages_of 25 10 = 3"
  by (simp add: totalPages_div)

text \<open>
  C4. For a store snapshot, a team option and the exclusion list, in either revision of
  the bot: the ranked sequence is non-increasing in points; no row whose id is on the
  exclusion list is in it, and it is the ranking of the store with those rows deleted, so
  an excluded user takes no rank number; a page that is served shows the ten rows from
  position \<open>(page - 1) * 10\<close> on, numbered from \<open>(page - 1) * 10 + 1\<close>; the pages 1 to
  totalPages, one after the other, are the ranked sequence, each entry once; and when the
  store answers and every user name can be fetched, each of these pages is served.
\<close>

theorem leaderboard_ranking:
  fixes ranked_of :: "string \<Rightarrow> user list \<Rightarrow> user list" and teamOption :: string and st :: store
  assumes "ranked_of = rank_query \<or> ranked_of = rank_query_part_000"
  defines "ranked \<equiv> ranked_of teamOption (users st)"
  shows "sorted_wrt (\<lambda>a b. points a \<ge> points b) ranked
   \<and> (\<forall>u\<in>set ranked. discord_id u \<notin> set EXCLUDED_USER_IDS)
   \<and> ranked = ranked_of teamOption (filter (\<lambda>u. discord_id u \<notin> set EXCLUDED_USER_IDS) (users st))
   \<and> (\<forall>page_option b.
        leaderboard_handler ranked_of usernames st caller teamOption page_option = Embed b \<longrightarrow>
          map player (entries b) = take 10 (drop (nat ((page_or_1 page_option - 1) * 10)) ranked)
        \<and> map position (entries b)
            = map (\<lambda>i. (page_or_1 page_option - 1) * 10 + int i + 1) [0..<length (entries b)])
   \<and> concat (map (\<lambda>page. take 10 (drop (nat ((page - 1) * 10)) ranked))
               [1..totalPages_of (length ranked) 10]) = ranked
   \<and> ((\<forall>from to. \<not> rejects st (Select_page from to))
        \<and> (\<forall>u\<in>set ranked. usernames (discord_id u) \<noteq> None) \<longrightarrow>
        (\<forall>page\<in>set [1..totalPages_of (length ranked) 10].
           \<exists>b. leaderboard_handler ranked_of usernames st caller teamOption (Some page) = Embed b))"
proof (intro conjI allI impI ballI)
  show "sorted_wrt (\<lambda>a b. points a \<ge> points b) ranked"
    unfolding ranked_def using assms(1) by (rule rank_queries_sorted)
next
  fix u assume "u \<in> set ranked"
  then show "discord_id u \<notin> set EXCLUDED_USER_IDS"
    unfolding ranked_def using assms(1) by (intro rank_queries_exclude)
next
  show "ranked = ranked_of teamOption (filter (\<lambda>u. discord_id u \<notin> set EXCLUDED_USER_IDS) (users st))"
    unfolding ranked_def using assms(1) by (simp add: rank_queries_prefilter)
next
  fix page_option b
  assume served: "leaderboard_handler ranked_of usernames st caller teamOption page_option = Embed b"
  note es = handler_Embed(4) [OF served]
  from leaderboardEntries_Some(1) [OF es]
  show "map player (entries b) = take 10 (drop (nat ((page_or_1 page_option - 1) * 10)) ranked)"
    by (simp add: ranked_def)
  from leaderboardEntries_Some(2) [OF es]
  show "map position (entries b)
      = map (\<lambda>i. (page_or_1 page_option - 1) * 10 + int i + 1) [0..<length (entries b)]" .
next
  show "concat (map (\<lambda>page. take 10 (drop (nat ((page - 1) * 10)) ranked))
               [1..totalPages_of (length ranked) 10]) = ranked"
    by (rule all_pages)
next
  fix page
  assume ok: "(\<forall>from to. \<not> rejects st (Select_page from to))
        \<and> (\<forall>u\<in>set ranked. usernames (discord_id u) \<noteq> None)"
    and "page \<in> set [1..totalPages_of (length ranked) 10]"
  then have "1 \<le> page" "page \<le> totalPages_of (length ranked) 10" by simp_all
  then have "(page - 1) * 10 < int (length ranked)"
    using totalPages_bounds(3) [of page "length ranked"] by simp
  with ok \<open>1 \<le> page\<close>
  show "\<exists>b. leaderboard_handler ranked_of usernames st caller teamOption (Some page) = Embed b"
    unfolding ranked_def by (intro handler_serves) simp_all
qed

theorem leaderboard_ranking_witness:
  "(rank_query = rank_query \<or> rank_query = rank_query_part_000)
   \<and> (\<forall>from to. \<not> rejects board_store (Select_page from to))
   \<and> sorted_wrt (\<lambda>a b. points a \<ge> points b) (rank_query ''bullas'' (users board_store))
   \<and> (\<exists>b. leaderboard_handler rank_query known_names board_store ''x'' ''bullas'' (Some 3) = Embed b
          \<and> map player (entries b) = take 10 (drop 20 (rank_query ''bullas'' (users board_store)))
          \<and> map position (entries b) = [21, 22, 23, 24, 25])
   \<and> concat (map (\<lambda>page. take 10 (drop (nat ((page - 1) * 10)) (rank_query ''bullas'' (users board_store))))
               [1..3]) = rank_query ''bullas'' (users board_store)"
proof -
  have h: "rank_query = rank_query \<or> rank_query = rank_query_part_000" by simp
  note T = leaderboard_ranking [OF h, where teamOption = "''bullas''" and st = board_store
      and usernames = known_names and caller = "''x''"]
  have sorted: "sorted_wrt (\<lambda>a b. points a \<ge> points b) (rank_query ''bullas'' (users board_store))"
    using T by (rule conjunct1)
  have pages: "concat (map (\<lambda>page. take 10 (drop (nat ((page - 1) * 10)) (rank_query ''bullas'' (users board_store))))
               [1..3]) = rank_query ''bullas'' (users board_store)"
    using T [THEN conjunct2, THEN conjunct2, THEN conjunct2, THEN conjunct2, THEN conjunct1]
    by (simp only: board_ranked_length three_pages)
  have every: "\<forall>page\<in>set [1..totalPages_of (length (rank_query ''bullas'' (users board_store))) 10].
           \<exists>b. leaderboard_handler rank_query known_names board_store ''x'' ''bullas'' (Some page) = Embed b"
    using T [THEN conjunct2, THEN conjunct2, THEN conjunct2, THEN conjunct2, THEN conjunct2]
      board_accepts board_names by blast
  have third: "3 \<in> set [1..totalPages_of (length (rank_query ''bullas'' (users board_store))) 10]"
    by (simp add: board_ranked_length three_pages)
  from bspec [OF every third] obtain b where served:
    "leaderboard_handler rank_query known_names board_store ''x'' ''bullas'' (Some 3) = Embed b"
    by blast
  from T [THEN conjunct2, THEN conjunct2, THEN conjunct2, THEN conjunct1] served
  have rows: "map player (entries b)
        = take 10 (drop (nat ((page_or_1 (Some 3) - 1) * 10)) (rank_query ''bullas'' (users board_store)))"
    and nums: "map position (entries b)
        = map (\<lambda>i. (page_or_1 (Some 3) - 1) * 10 + int i + 1) [0..<length (entries b)]"
    by blast+
  from rows have rows': "map player (entries b) = take 10 (drop 20 (rank_query ''bullas'' (users board_store)))"
    by (simp add: page_or_1_def)
  then have "length (map player (entries b)) = 5"
    by (simp add: board_ranked_length)
  then have len: "length (entries b) = 5" by simp
  have "[0..<5] = [0, 1, 2, 3, 4::nat]" by code_simp
  with nums len have nums': "map position (entries b) = [21, 22, 23, 24, 25]"
    by (simp add: page_or_1_def)
  from served rows' nums'
  have shown: "\<exists>b. leaderboard_handler rank_query known_names board_store ''x'' ''bullas'' (Some 3) = Embed b
          \<and> map player (entries b) = take 10 (drop 20 (rank_query ''bullas'' (users board_store)))
          \<and> map position (entries b) = [21, 22, 23, 24, 25]"
    by (intro exI [of _ b] conjI)
  have answers: "\<forall>from to. \<not> rejects board_store (Select_page from to)"
    by (simp add: board_accepts)
  from h answers sorted shown pages
  show ?thesis by (intro conjI)
qed

text \<open>
  C5. Pages are numbered from 1 and hold ten entries. Whenever the leaderboard is shown,
  the footer gives the requested page and totalPages, the ceiling of the number of
  matching rows (team-filtered, without the excluded ids) over ten; the page lies
  between 1 and totalPages and shows the rows of its slice; Previous is disabled exactly
  when the page is at most 1, and Next exactly when the page is at least totalPages, on
  the board the command shows and on the one a pagination button shows. With
  25 matching rows totalPages is 3 and page 3 has 5 entries, and page 3 is served when the
  store answers and the user names can be fetched.
\<close>

theorem leaderboard_pagination:
  fixes st :: store and teamOption :: string
  defines "ranked \<equiv> rank_query teamOption (users st)"
  shows "(leaderboard usernames st caller teamOption page_option = Embed b \<longrightarrow>
            footer_page b = page_or_1 page_option
          \<and> 1 \<le> footer_page b \<and> footer_page b \<le> footer_total b
          \<and> footer_total b = \<lceil>real (length ranked) / 10\<rceil>
          \<and> map player (entries b) = take 10 (drop (nat ((footer_page b - 1) * 10)) ranked)
          \<and> entries b \<noteq> [] \<and> length (entries b) \<le> 10
          \<and> (prev_disabled b \<longleftrightarrow> footer_page b \<le> 1)
          \<and> (next_disabled b \<longleftrightarrow> footer_page b \<ge> footer_total b)
          \<and> (length ranked = 25 \<longrightarrow>
                footer_total b = 3 \<and> (footer_page b = 3 \<longrightarrow> length (entries b) = 5)))
       \<and> (length ranked = 25 \<and> \<not> rejects st (Select_page 20 29)
            \<and> (\<forall>u\<in>set ranked. usernames (discord_id u) \<noteq> None) \<longrightarrow>
            (\<exists>b. leaderboard usernames st caller teamOption (Some 3) = Embed b
                 \<and> footer_total b = 3 \<and> length (entries b) = 5
                 \<and> next_disabled b \<and> \<not> prev_disabled b))
       \<and> (leaderboard_button usernames st caller command_user action teamOption currentPage
              = Some (Embed b) \<longrightarrow>
            footer_page b = (if action = ''next'' then currentPage + 1 else currentPage - 1)
          \<and> footer_total b = \<lceil>real (length ranked) / 10\<rceil>
          \<and> (prev_disabled b \<longleftrightarrow> footer_page b \<le> 1)
          \<and> (next_disabled b \<longleftrightarrow> footer_page b \<ge> footer_total b))"
proof -
  have part1: "footer_page b = page_or_1 page_option
          \<and> 1 \<le> footer_page b \<and> footer_page b \<le> footer_total b
          \<and> footer_total b = \<lceil>real (length ranked) / 10\<rceil>
          \<and> map player (entries b) = take 10 (drop (nat ((footer_page b - 1) * 10)) ranked)
          \<and> entries b \<noteq> [] \<and> length (entries b) \<le> 10
          \<and> (prev_disabled b \<longleftrightarrow> footer_page b \<le> 1)
          \<and> (next_disabled b \<longleftrightarrow> footer_page b \<ge> footer_total b)
          \<and> (length ranked = 25 \<longrightarrow>
                footer_total b = 3 \<and> (footer_page b = 3 \<longrightarrow> length (entries b) = 5))"
    if served: "leaderboard usernames st caller teamOption page_option = Embed b"
    for b page_option
  proof -
    from served have s: "leaderboard_handler rank_query usernames st caller teamOption page_option = Embed b"
      by (simp add: leaderboard_def)
    note f = handler_Embed [OF s, folded ranked_def]
    let ?page = "page_or_1 page_option"
    have fp: "footer_page b = ?page" by (rule f(6))
    have ft: "footer_total b = totalPages_of (length ranked) 10" by (rule f(7))
    have one: "1 \<le> ?page" by (rule f(2))
    have rows: "map player (entries b) = take 10 (drop (nat ((?page - 1) * 10)) ranked)"
      using leaderboardEntries_Some(1) [OF f(4)] .
    have len: "length (entries b) = length (take 10 (drop (nat ((?page - 1) * 10)) ranked))"
      using leaderboardEntries_Some(3) [OF f(4)] .
    have ne: "entries b \<noteq> []" using len f(3) by auto
    have inside: "(?page - 1) * 10 < int (length ranked)"
      using f(3) one by auto
    then have le: "?page \<le> totalPages_of (length ranked) 10"
      using totalPages_bounds(3) [OF one] by simp
    have ceil: "totalPages_of (length ranked) 10 = \<lceil>real (length ranked) / 10\<rceil>"
      by (simp add: totalPages_of_def)
    have "length (entries b) = 5" if "length ranked = 25" "?page = 3"
      using len that by simp
    moreover have "totalPages_of (length ranked) 10 = 3" if "length ranked = 25"
      using that by (simp add: totalPages_div)
    ultimately show ?thesis
      using fp ft one rows len ne le ceil f(8) f(9) by simp
  qed
  have part2: "\<exists>b. leaderboard usernames st caller teamOption (Some 3) = Embed b
                 \<and> footer_total b = 3 \<and> length (entries b) = 5
                 \<and> next_disabled b \<and> \<not> prev_disabled b"
    if a: "length ranked = 25 \<and> \<not> rejects st (Select_page 20 29)
            \<and> (\<forall>u\<in>set ranked. usernames (discord_id u) \<noteq> None)"
  proof -
    have "\<exists>b. leaderboard_handler rank_query usernames st caller teamOption (Some 3) = Embed b"
      using a unfolding ranked_def by (intro handler_serves) simp_all
    then obtain b where b: "leaderboard usernames st caller teamOption (Some 3) = Embed b"
      by (auto simp: leaderboard_def)
    from part1 [OF b] a have "footer_total b = 3 \<and> length (entries b) = 5
                 \<and> next_disabled b \<and> \<not> prev_disabled b"
      by (simp add: page_or_1_def)
    with b show ?thesis by blast
  qed
  have part3: "footer_page b = (if action = ''next'' then currentPage + 1 else currentPage - 1)
          \<and> footer_total b = \<lceil>real (length ranked) / 10\<rceil>
          \<and> (prev_disabled b \<longleftrightarrow> footer_page b \<le> 1)
          \<and> (next_disabled b \<longleftrightarrow> footer_page b \<ge> footer_total b)"
    if pressed: "leaderboard_button usernames st caller command_user action teamOption currentPage
              = Some (Embed b)"
  proof -
    from pressed
    have p: "leaderboard_button_handler rank_query usernames st caller command_user action teamOption
               currentPage = Some (Embed b)"
      by (simp add: leaderboard_button_def)
    note f = button_Embed [OF p, folded ranked_def]
    have ceil: "totalPages_of (length ranked) 10 = \<lceil>real (length ranked) / 10\<rceil>"
      by (simp add: totalPages_of_def)
    from f(2) f(3) f(4) f(5) ceil show ?thesis by simp
  qed
  show ?thesis
  proof (intro conjI)
    show "leaderboard usernames st caller teamOption page_option = Embed b \<longrightarrow>
            footer_page b = page_or_1 page_option
          \<and> 1 \<le> footer_page b \<and> footer_page b \<le> footer_total b
          \<and> footer_total b = \<lceil>real (length ranked) / 10\<rceil>
          \<and> map player (entries b) = take 10 (drop (nat ((footer_page b - 1) * 10)) ranked)
          \<and> entries b \<noteq> [] \<and> length (entries b) \<le> 10
          \<and> (prev_disabled b \<longleftrightarrow> footer_page b \<le> 1)
          \<and> (next_disabled b \<longleftrightarrow> footer_page b \<ge> footer_total b)
          \<and> (length ranked = 25 \<longrightarrow>
                footer_total b = 3 \<and> (footer_page b = 3 \<longrightarrow> length (entries b) = 5))"
      by (rule impI) (rule part1)
    show "length ranked = 25 \<and> \<not> rejects st (Select_page 20 29)
            \<and> (\<forall>u\<in>set ranked. usernames (discord_id u) \<noteq> None) \<longrightarrow>
            (\<exists>b. leaderboard usernames st caller teamOption (Some 3) = Embed b
                 \<and> footer_total b = 3 \<and> length (entries b) = 5
                 \<and> next_disabled b \<and> \<not> prev_disabled b)"
      by (rule impI) (rule part2)
    show "leaderboard_button usernames st caller command_user action teamOption currentPage
              = Some (Embed b) \<longrightarrow>
            footer_page b = (if action = ''next'' then currentPage + 1 else currentPage - 1)
          \<and> footer_total b = \<lceil>real (length ranked) / 10\<rceil>
          \<and> (prev_disabled b \<longleftrightarrow> footer_page b \<le> 1)
          \<and> (next_disabled b \<longleftrightarrow> footer_page b \<ge> footer_total b)"
      by (rule impI) (rule part3)
  qed
qed

theorem leaderboard_pagination_witness:
  "length (rank_query ''bullas'' (users board_store)) = 25
   \<and> \<not> rejects board_store (Select_page 20 29)
   \<and> (\<exists>b. leaderboard known_names board_store ''x'' ''bullas'' (Some 3) = Embed b
          \<and> footer_total b = 3 \<and> length (entries b) = 5 \<and> next_disabled b \<and> \<not> prev_disabled b)"
proof -
  have h: "length (rank_query ''bullas'' (users board_store)) = 25 \<and> \<not> rejects board_store (Select_page 20 29)
      \<and> (\<forall>u\<in>set (rank_query ''bullas'' (users board_store)). known_names (discord_id u) \<noteq> None)"
    using board_ranked_length board_accepts board_names by (intro conjI)
  from leaderboard_pagination [where st = board_store and teamOption = "''bullas''"
      and usernames = known_names and caller = "''x''", THEN conjunct2, THEN conjunct1, rule_format, OF h]
  have "\<exists>b. leaderboard known_names board_store ''x'' ''bullas'' (Some 3) = Embed b
          \<and> footer_total b = 3 \<and> length (entries b) = 5 \<and> next_disabled b \<and> \<not> prev_disabled b" .
  with board_ranked_length board_accepts [of "Select_page 20 29"] show ?thesis by (intro conjI)
qed

text \<open>
  C6. Whatever page is requested, by the command or by a pagination button, the rank
  line of a leaderboard that is shown is read from the whole ranked sequence: its number
  is the 1-based position of the first row with the caller's id in that sequence, and
  the row is that row. A caller who is not in the sequence gets no rank line; a caller
  who is in it gets one when the store answers the rank query.
\<close>

theorem own_rank_is_global:
  fixes st :: store and teamOption :: string
  defines "ranked \<equiv> rank_query teamOption (users st)"
  shows "(leaderboard usernames st caller teamOption page_option = Embed b
          \<or> leaderboard_button usernames st caller command_user action teamOption currentPage
              = Some (Embed b)) \<longrightarrow>
        (caller \<notin> discord_id ` set ranked \<longrightarrow> your_rank b = None)
      \<and> (\<forall>r d. your_rank b = Some (r, d) \<longrightarrow>
            1 \<le> r \<and> r \<le> int (length ranked) \<and> d = ranked ! nat (r - 1) \<and> discord_id d = caller
            \<and> (\<forall>j < nat (r - 1). discord_id (ranked ! j) \<noteq> caller))
      \<and> (caller \<in> discord_id ` set ranked \<and> \<not> rejects st Select_rank \<longrightarrow> your_rank b \<noteq> None)"
proof (rule impI)
  assume "leaderboard usernames st caller teamOption page_option = Embed b
          \<or> leaderboard_button usernames st caller command_user action teamOption currentPage
              = Some (Embed b)"
  then have "your_rank b = own_rank st ranked caller"
  proof
    assume "leaderboard usernames st caller teamOption page_option = Embed b"
    then show ?thesis
      unfolding leaderboard_def ranked_def by (rule handler_Embed(5))
  next
    assume "leaderboard_button usernames st caller command_user action teamOption currentPage
              = Some (Embed b)"
    then show ?thesis
      unfolding leaderboard_button_def ranked_def by (rule button_Embed(1))
  qed
  then show "(caller \<notin> discord_id ` set ranked \<longrightarrow> your_rank b = None)
      \<and> (\<forall>r d. your_rank b = Some (r, d) \<longrightarrow>
            1 \<le> r \<and> r \<le> int (length ranked) \<and> d = ranked ! nat (r - 1) \<and> discord_id d = caller
            \<and> (\<forall>j < nat (r - 1). discord_id (ranked ! j) \<noteq> caller))
      \<and> (caller \<in> discord_id ` set ranked \<and> \<not> rejects st Select_rank \<longrightarrow> your_rank b \<noteq> None)"
    using own_rank_global [of caller ranked st] by simp
qed

lemma board_page_3:
  "(case leaderboard known_names board_store ''xxxxxxx'' ''bullas'' (Some 3) of
      Embed b \<Rightarrow> your_rank b = Some (19, bulla 7) \<and> map position (entries b) = [21, 22, 23, 24, 25]
    | Message text \<Rightarrow> False)"
  by code_simp

theorem own_rank_is_global_witness:
  "\<exists>b. leaderboard known_names board_store ''xxxxxxx'' ''bullas'' (Some 3) = Embed b
      \<and> your_rank b = Some (19, bulla 7)
      \<and> map position (entries b) = [21, 22, 23, 24, 25]
      \<and> 19 \<le> int (length (rank_query ''bullas'' (users board_store)))
      \<and> bulla 7 = rank_query ''bullas'' (users board_store) ! 18
      \<and> discord_id (bulla 7) = ''xxxxxxx''"
proof -
  from board_page_3 obtain b
    where served: "leaderboard known_names board_store ''xxxxxxx'' ''bullas'' (Some 3) = Embed b"
      and rank: "your_rank b = Some (19, bulla 7)"
      and shown: "map position (entries b) = [21, 22, 23, 24, 25]"
    by (cases "leaderboard known_names board_store ''xxxxxxx'' ''bullas'' (Some 3)") simp_all
  from served
  have "leaderboard known_names board_store ''xxxxxxx'' ''bullas'' (Some 3) = Embed b
      \<or> leaderboard_button known_names board_store ''xxxxxxx'' ''xxxxxxx'' ''next'' ''bullas'' 2
          = Some (Embed b)"
    by (rule disjI1)
  from own_rank_is_global [rule_format, OF this, THEN conjunct2, THEN conjunct1, rule_format, OF rank]
  have global: "1 \<le> (19::int) \<and> 19 \<le> int (length (rank_query ''bullas'' (users board_store)))
      \<and> bulla 7 = rank_query ''bullas'' (users board_store) ! nat (19 - 1)
      \<and> discord_id (bulla 7) = ''xxxxxxx''
      \<and> (\<forall>j < nat (19 - 1). discord_id (rank_query ''bullas'' (users board_store) ! j) \<noteq> ''xxxxxxx'')" .
  have eighteen: "nat (19 - 1) = 18" by simp
  from global have a: "19 \<le> int (length (rank_query ''bullas'' (users board_store)))"
    by (rule conjunct2 [THEN conjunct1])
  from global have b: "bulla 7 = rank_query ''bullas'' (users board_store) ! 18"
    unfolding eighteen by (rule conjunct2 [THEN conjunct2, THEN conjunct1])
  from global have c: "discord_id (bulla 7) = ''xxxxxxx''"
    by (rule conjunct2 [THEN conjunct2, THEN conjunct2, THEN conjunct1])
  from served rank shown a b c show ?thesis
    by (intro exI [of _ b] conjI)
qed

end
